theory Spec2Isabelle
  imports Complex_Main "HOL-Library.AList" "HOL-Library.Multiset" "HOL-Library.Sublist"
begin

section \<open>JavaScript values and the conversions the tools rely on\<close>

text \<open>
  The tools handle Directory records as \<^verbatim>\<open>Record<string, unknown>\<close>: objects decoded from
  JSON, read through property access and the conversions \<^verbatim>\<open>String(..)\<close>, \<^verbatim>\<open>Number(..)\<close>,
  \<^verbatim>\<open>Boolean(..)\<close>, \<^verbatim>\<open>??\<close> and truthiness tests. An object is an association list in
  insertion order, read by its first binding of a key (the keys of an object are distinct).
  Numbers are the integers, in the range that the engine holds exactly and prints in plain
  decimal notation, plus \<open>NaN\<close>; a string is a list of 8-bit code units.
\<close>

datatype jsval =
    JUndefined
  | JNull
  | JBool bool
  | JNum int
  | JNaN
  | JStr string
  | JArr "jsval list"
  | JObj "(string \<times> jsval) list"

type_synonym jsobj = "(string \<times> jsval) list"

definition get_prop :: "jsobj \<Rightarrow> string \<Rightarrow> jsval" where
  "get_prop obj k = (case map_of obj k of None \<Rightarrow> JUndefined | Some v \<Rightarrow> v)"

definition has_key :: "jsobj \<Rightarrow> string \<Rightarrow> bool" where
  "has_key obj k = (map_of obj k \<noteq> None)"

text \<open>\<^verbatim>\<open>obj[k] = v\<close>: an existing property keeps its place, a new one goes last.\<close>

definition set_prop :: "string \<Rightarrow> jsval \<Rightarrow> jsobj \<Rightarrow> jsobj" where
  "set_prop k v obj = AList.update k v obj"

text \<open>
  \<^verbatim>\<open>v.k\<close> on a value of unknown shape, for a key that no prototype defines
  (\<^verbatim>\<open>priority\<close>, \<^verbatim>\<open>weight\<close>, \<^verbatim>\<open>port\<close>): only an object can have it.
\<close>

definition member_of :: "jsval \<Rightarrow> string \<Rightarrow> jsval" where
  "member_of v k = (case v of JObj kvs \<Rightarrow> get_prop kvs k | _ \<Rightarrow> JUndefined)"

definition nullish :: "jsval \<Rightarrow> jsval \<Rightarrow> jsval" where
  "nullish a b = (if a = JUndefined \<or> a = JNull then b else a)"

fun truthy :: "jsval \<Rightarrow> bool" where
  "truthy JUndefined = False"
| "truthy JNull = False"
| "truthy (JBool b) = b"
| "truthy (JNum n) = (n \<noteq> 0)"
| "truthy JNaN = False"
| "truthy (JStr s) = (s \<noteq> [])"
| "truthy (JArr xs) = True"
| "truthy (JObj kvs) = True"

definition digit_char :: "nat \<Rightarrow> char" where
  "digit_char d = ''0123456789'' ! d"

fun show_nat :: "nat \<Rightarrow> string" where
  "show_nat n = (if n < 10 then [digit_char n] else show_nat (n div 10) @ [digit_char (n mod 10)])"

declare show_nat.simps [simp del]

definition show_int :: "int \<Rightarrow> string" where
  "show_int i = (if i < 0 then CHR ''-'' # show_nat (nat (- i)) else show_nat (nat i))"

text \<open>\<^verbatim>\<open>String(v)\<close>; an array joins its elements with commas, null and undefined as empty.\<close>

fun ToString :: "jsval \<Rightarrow> string"
  and join_elements :: "jsval list \<Rightarrow> string" where
  "ToString JUndefined = ''undefined''"
| "ToString JNull = ''null''"
| "ToString (JBool b) = (if b then ''true'' else ''false'')"
| "ToString (JNum n) = show_int n"
| "ToString JNaN = ''NaN''"
| "ToString (JStr s) = s"
| "ToString (JArr xs) = join_elements xs"
| "ToString (JObj kvs) = ''[object Object]''"
| "join_elements [] = []"
| "join_elements [x] = (if x = JUndefined \<or> x = JNull then [] else ToString x)"
| "join_elements (x # y # ys) =
     (if x = JUndefined \<or> x = JNull then [] else ToString x) @ '','' @ join_elements (y # ys)"

definition is_space :: "char \<Rightarrow> bool" where
  "is_space c = (c \<in> set [CHR 0x09, CHR 0x0A, CHR 0x0B, CHR 0x0C, CHR 0x0D, CHR 0x20, CHR 0xA0])"

definition is_digit :: "char \<Rightarrow> bool" where
  "is_digit c = (c \<in> set ''0123456789'')"

definition digits_value :: "string \<Rightarrow> int" where
  "digits_value ds = foldl (\<lambda>acc c. 10 * acc + (of_char c - 48)) 0 ds"

text \<open>
  The numeric value of a string, for the literals in plain decimal integer notation:
  surrounding white space is dropped, the empty string is 0, an optional sign precedes
  decimal digits. The other numeric literal forms (fractions, exponents, hexadecimal,
  \<^verbatim>\<open>Infinity\<close>) are not modelled and read as \<open>NaN\<close> here; no property below depends on the
  number that a string converts to.
\<close>

definition StringToNumber :: "string \<Rightarrow> jsval" where
  "StringToNumber s =
     (let t = rev (dropWhile is_space (rev (dropWhile is_space s))) in
      case t of
        [] \<Rightarrow> JNum 0
      | c # cs \<Rightarrow>
          if (c = CHR ''-'' \<or> c = CHR ''+'') \<and> cs \<noteq> [] \<and> list_all is_digit cs
            then JNum (if c = CHR ''-'' then - digits_value cs else digits_value cs)
          else if list_all is_digit t then JNum (digits_value t)
          else JNaN)"

text \<open>\<^verbatim>\<open>Number(v)\<close>.\<close>

fun ToNumber :: "jsval \<Rightarrow> jsval" where
  "ToNumber JUndefined = JNaN"
| "ToNumber JNull = JNum 0"
| "ToNumber (JBool b) = JNum (if b then 1 else 0)"
| "ToNumber (JNum n) = JNum n"
| "ToNumber JNaN = JNaN"
| "ToNumber (JStr s) = StringToNumber s"
| "ToNumber (JArr xs) = StringToNumber (ToString (JArr xs))"
| "ToNumber (JObj kvs) = JNaN"

section \<open>Record Formatter (formatters/record.ts)\<close>

text \<open>
  \<^verbatim>\<open>formatRecord(record, concise)\<close>: the record itself when \<open>concise\<close> is false, otherwise a
  fresh object with the five fixed fields, to which the conditional fields are assigned in
  the order of the source.
\<close>

definition formatRecord :: "jsobj \<Rightarrow> bool \<Rightarrow> jsobj" where
  "formatRecord record concise =
     (if \<not> concise then record
      else
        let result0 =
              [(''id'', JStr (ToString (nullish (get_prop record ''id'') (JStr '''')))),
               (''type'', JStr (ToString (nullish (get_prop record ''type'') (JStr '''')))),
               (''name'', JStr (ToString (nullish (get_prop record ''name'') (JStr '''')))),
               (''content'', JStr (ToString (nullish (get_prop record ''content'') (JStr '''')))),
               (''ttl'', if get_prop record ''ttl'' = JNum 1 then JStr ''auto''
                         else ToNumber (nullish (get_prop record ''ttl'') (JNum 0)))];
            result1 =
              (if get_prop result0 ''type'' \<in> set [JStr ''A'', JStr ''AAAA'', JStr ''CNAME'']
               then set_prop ''proxied'' (JBool (truthy (get_prop record ''proxied''))) result0
               else result0);
            result2 =
              (if truthy (get_prop record ''comment'')
               then set_prop ''comment'' (JStr (ToString (get_prop record ''comment''))) result1
               else result1);
            result3 =
              (if truthy (get_prop record ''created_on'')
               then set_prop ''created_on'' (JStr (ToString (get_prop record ''created_on''))) result2
               else result2);
            result4 =
              (if truthy (get_prop record ''modified_on'')
               then set_prop ''modified_on'' (JStr (ToString (get_prop record ''modified_on''))) result3
               else result3);
            result5 =
              (if get_prop result4 ''type'' = JStr ''MX'' \<and> get_prop record ''priority'' \<noteq> JUndefined
               then set_prop ''priority'' (ToNumber (get_prop record ''priority'')) result4
               else result4);
            result6 =
              (if get_prop result5 ''type'' = JStr ''SRV'' \<and> truthy (get_prop record ''data'')
               then
                 (let data = get_prop record ''data'' in
                  set_prop ''port'' (member_of data ''port'')
                    (set_prop ''weight'' (member_of data ''weight'')
                      (set_prop ''priority'' (member_of data ''priority'') result5)))
               else result5)
        in result6)"

definition formatRecords :: "jsobj list \<Rightarrow> bool \<Rightarrow> jsobj list" where
  "formatRecords records concise = map (\<lambda>r. formatRecord r concise) records"

section \<open>Summarizer (formatters/record.ts)\<close>

record proxied_counts =
  proxied :: nat
  dns_only :: nat

record record_summary =
  total :: nat
  by_type :: jsobj
  by_proxied :: proxied_counts

text \<open>
  The key under which \<^verbatim>\<open>buildRecordSummary\<close> counts a record:
  \<^verbatim>\<open>String(r.type ?? "UNKNOWN")\<close>.
\<close>

definition type_key :: "jsobj \<Rightarrow> string" where
  "type_key r = ToString (nullish (get_prop r ''type'') (JStr ''UNKNOWN''))"

text \<open>
  \<^verbatim>\<open>byType\<close> is a plain object \<^verbatim>\<open>{}\<close> used as a dictionary, so it inherits the members of
  \<^verbatim>\<open>Object.prototype\<close>. The table gives their names, each with the string that the member
  converts to: a native function converts to its source text (written as Node prints it; no
  property below depends on that text), and \<^verbatim>\<open>__proto__\<close> reads as the prototype object.
\<close>

definition Object_prototype :: "(string \<times> string) list" where
  "Object_prototype =
     [(''constructor'', ''function Object() { [native code] }''),
      (''__defineGetter__'', ''function __defineGetter__() { [native code] }''),
      (''__defineSetter__'', ''function __defineSetter__() { [native code] }''),
      (''hasOwnProperty'', ''function hasOwnProperty() { [native code] }''),
      (''__lookupGetter__'', ''function __lookupGetter__() { [native code] }''),
      (''__lookupSetter__'', ''function __lookupSetter__() { [native code] }''),
      (''isPrototypeOf'', ''function isPrototypeOf() { [native code] }''),
      (''propertyIsEnumerable'', ''function propertyIsEnumerable() { [native code] }''),
      (''toString'', ''function toString() { [native code] }''),
      (''valueOf'', ''function valueOf() { [native code] }''),
      (''__proto__'', ''[object Object]''),
      (''toLocaleString'', ''function toLocaleString() { [native code] }'')]"

text \<open>\<^verbatim>\<open>v + 1\<close>: a string, an array or an object is concatenated with \<^verbatim>\<open>"1"\<close>.\<close>

definition plus_one :: "jsval \<Rightarrow> jsval" where
  "plus_one v =
     (case v of
        JStr s \<Rightarrow> JStr (s @ ''1'')
      | JArr xs \<Rightarrow> JStr (ToString v @ ''1'')
      | JObj kvs \<Rightarrow> JStr (ToString v @ ''1'')
      | _ \<Rightarrow> (case ToNumber v of JNum n \<Rightarrow> JNum (n + 1) | _ \<Rightarrow> JNaN))"

text \<open>
  \<^verbatim>\<open>(byType[type] ?? 0) + 1\<close>: an own property is read; otherwise an inherited member, which is
  not nullish and adds as its string; otherwise the property is undefined and 0 stands in.
\<close>

definition bumped :: "jsobj \<Rightarrow> string \<Rightarrow> jsval" where
  "bumped byType type' =
     (case map_of byType type' of
        Some v \<Rightarrow> plus_one (nullish v (JNum 0))
      | None \<Rightarrow>
          (case map_of Object_prototype type' of
             Some s \<Rightarrow> JStr (s @ ''1'')
           | None \<Rightarrow> plus_one (nullish JUndefined (JNum 0))))"

text \<open>
  \<^verbatim>\<open>byType[type] = v\<close> for a number or a string \<open>v\<close>: the inherited setter of \<^verbatim>\<open>__proto__\<close>
  ignores such a value, so that no property is made; every other name gets an own property.
\<close>

definition assign :: "string \<Rightarrow> jsval \<Rightarrow> jsobj \<Rightarrow> jsobj" where
  "assign type' v byType = (if type' = ''__proto__'' then byType else set_prop type' v byType)"

text \<open>The loop of \<^verbatim>\<open>buildRecordSummary\<close> over its three accumulators.\<close>

fun summary_loop ::
  "jsobj list \<Rightarrow> jsobj \<Rightarrow> nat \<Rightarrow> nat \<Rightarrow> jsobj \<times> nat \<times> nat" where
  "summary_loop [] byType nproxied dnsOnly = (byType, nproxied, dnsOnly)"
| "summary_loop (r # rs) byType nproxied dnsOnly =
     (let byType' = assign (type_key r) (bumped byType (type_key r)) byType
      in if truthy (get_prop r ''proxied'')
         then summary_loop rs byType' (nproxied + 1) dnsOnly
         else summary_loop rs byType' nproxied (dnsOnly + 1))"

definition buildRecordSummary :: "jsobj list \<Rightarrow> record_summary" where
  "buildRecordSummary records =
     (case summary_loop records [] 0 0 of
        (byType, nproxied, dnsOnly) \<Rightarrow>
          \<lparr> total = length records, by_type = byType,
            by_proxied = \<lparr> proxied = nproxied, dns_only = dnsOnly \<rparr> \<rparr>)"



section \<open>Pagination utilities (utils/pagination.ts)\<close>

text \<open>
  \<^verbatim>\<open>xs.slice(start, end)\<close> on an array or a string: a negative index counts from the end,
  both are clamped to the length, and an end before the start gives the empty slice.
\<close>

definition js_slice :: "'a list \<Rightarrow> int \<Rightarrow> int \<Rightarrow> 'a list" where
  "js_slice xs start end =
     (let len = int (length xs);
          k = (if start < 0 then max (len + start) 0 else min start len);
          final = (if end < 0 then max (len + end) 0 else min end len)
      in take (nat (final - k)) (drop (nat k) xs))"

text \<open>\<^verbatim>\<open>xs.lastIndexOf(c)\<close> for a single code unit \<open>c\<close>: the last index holding it, or -1.\<close>

fun lastIndexOf :: "'a list \<Rightarrow> 'a \<Rightarrow> int" where
  "lastIndexOf [] c = - 1"
| "lastIndexOf (x # xs) c =
     (let r = lastIndexOf xs c in if 0 \<le> r then r + 1 else if x = c then 0 else - 1)"

definition CHARACTER_LIMIT :: nat where
  "CHARACTER_LIMIT = 25000"

definition newline :: char where
  "newline = CHR 0x0A"

definition TRUNCATION_NOTICE :: string where
  "TRUNCATION_NOTICE =
     [newline, newline] @ ''--- TRUNCATED ---'' @ [newline] @
     ''Response exceeded token limit. Use `page`, `per_page`, or filter parameters (filter_type, filter_name) to narrow results.''"

text \<open>
  \<^verbatim>\<open>truncateIfNeeded(text)\<close>. The threshold \<^verbatim>\<open>CHARACTER_LIMIT * 0.8\<close> is computed in the
  rationals.
\<close>

definition truncateIfNeeded :: "string \<Rightarrow> string" where
  "truncateIfNeeded text =
     (if length text \<le> CHARACTER_LIMIT then text
      else
        let truncated = js_slice text 0 (int CHARACTER_LIMIT);
            lastNewline = lastIndexOf truncated newline;
            cleanCut =
              (if rat_of_int lastNewline > rat_of_nat CHARACTER_LIMIT * (8 / 10)
               then js_slice truncated 0 lastNewline else truncated)
        in cleanCut @ TRUNCATION_NOTICE)"

record PaginationMeta =
  total :: nat
  count :: nat
  page :: int
  per_page :: int
  has_more :: bool

definition buildPaginationMeta :: "nat \<Rightarrow> 'a list \<Rightarrow> int \<Rightarrow> int \<Rightarrow> PaginationMeta" where
  "buildPaginationMeta total' items page' perPage =
     \<lparr> total = total', count = length items, page = page', per_page = perPage,
       has_more = (page' * perPage < int total') \<rparr>"

subsection \<open>The random source\<close>

text \<open>
  A value of \<^verbatim>\<open>Math.random()\<close> is a number \<open>u\<close> with \<open>0 \<le> u < 1\<close>, here a rational. The
  random source is the sequence of the values that the successive calls return.
\<close>

typedef draw = "{q :: rat. 0 \<le> q \<and> q < 1}"
  by (rule exI[of _ 0]) simp

setup_lifting type_definition_draw

text \<open>\<^verbatim>\<open>Math.floor(u * m)\<close>, the product taken exactly; it is below \<open>m\<close> for \<open>m > 0\<close>.\<close>

lift_definition floor_scaled :: "draw \<Rightarrow> nat \<Rightarrow> nat" is
  "\<lambda>q m. nat \<lfloor>q * of_nat m\<rfloor>" .

text \<open>The draw \<open>a / b\<close> for \<open>a < b\<close> (and 0 otherwise), to write concrete random sources.\<close>

lift_definition draw_of :: "nat \<Rightarrow> nat \<Rightarrow> draw" is
  "\<lambda>a b. if a < b then of_nat a / of_nat b else 0"
  by simp

subsection \<open>Arrays in a store\<close>

text \<open>
  \<^verbatim>\<open>randomSample\<close> copies its argument and shuffles the copy in place. Arrays live in a
  store, a list of arrays addressed by position; a new array is appended.
\<close>

type_synonym 'a store = "'a list list"

definition alloc :: "'a list \<Rightarrow> 'a store \<Rightarrow> nat \<times> 'a store" where
  "alloc xs h = (length h, h @ [xs])"

text \<open>
  The destructuring assignment \<^verbatim>\<open>[xs[i], xs[j]] = [xs[j], xs[i]]\<close>: both elements are read,
  then position \<open>i\<close> and position \<open>j\<close> are written, in this order. Both indices are inside
  the array wherever the loop calls it.
\<close>

definition swap_elements :: "'a list \<Rightarrow> nat \<Rightarrow> nat \<Rightarrow> 'a list" where
  "swap_elements xs i j = (let at_j = xs ! j; at_i = xs ! i in (xs[i := at_j])[j := at_i])"

text \<open>
  The loop \<^verbatim>\<open>for (let i = shuffled.length - 1; i > 0; i--)\<close> from index \<open>i\<close> on, on the array
  at address \<open>shuffled\<close>; \<open>k\<close> counts the calls of \<^verbatim>\<open>Math.random\<close> made so far.
\<close>

fun shuffle_loop :: "(nat \<Rightarrow> draw) \<Rightarrow> nat \<Rightarrow> nat \<Rightarrow> nat \<Rightarrow> 'a store \<Rightarrow> 'a store" where
  "shuffle_loop random k 0 shuffled h = h"
| "shuffle_loop random k (Suc i) shuffled h =
     (let j = floor_scaled (random k) (Suc i + 1);
          h' = h[shuffled := swap_elements (h ! shuffled) (Suc i) j]
      in shuffle_loop random (Suc k) i shuffled h')"

text \<open>
  \<^verbatim>\<open>randomSample(items, n)\<close> on the array at address \<open>items\<close>: the address of the result and
  the store after the call. For \<open>n \<ge> items.length\<close> the result is the argument itself.
\<close>

definition randomSample :: "(nat \<Rightarrow> draw) \<Rightarrow> 'a store \<Rightarrow> nat \<Rightarrow> int \<Rightarrow> nat \<times> 'a store" where
  "randomSample random h items n =
     (if n \<ge> int (length (h ! items)) then (items, h)
      else
        case alloc (h ! items) h of (shuffled, h1) \<Rightarrow>
          let h2 = shuffle_loop random 0 (length (h1 ! shuffled) - 1) shuffled h1
          in alloc (js_slice (h2 ! shuffled) 0 n) h2)"

text \<open>The array that \<^verbatim>\<open>randomSample(R, n)\<close> returns, for a caller that holds only \<open>R\<close>.\<close>

definition sample_of :: "(nat \<Rightarrow> draw) \<Rightarrow> 'a list \<Rightarrow> int \<Rightarrow> 'a list" where
  "sample_of random R n = (case randomSample random [R] 0 n of (a, h) \<Rightarrow> h ! a)"

subsection \<open>The Sampler as the specification words it\<close>

text \<open>
  Partial Fisher--Yates: from position \<open>i\<close> backward, swap each position with a drawn
  earlier-or-equal position, and stop after the given number of swaps.
\<close>

fun partial_shuffle :: "(nat \<Rightarrow> draw) \<Rightarrow> nat \<Rightarrow> nat \<Rightarrow> nat \<Rightarrow> 'a list \<Rightarrow> 'a list" where
  "partial_shuffle random k i 0 xs = xs"
| "partial_shuffle random k i (Suc m) xs =
     partial_shuffle random (Suc k) (i - 1) m (swap_elements xs i (floor_scaled (random k) (i + 1)))"

text \<open>The last \<open>n\<close> positions after \<open>n\<close> swaps, or all of \<open>R\<close> if \<open>n \<ge> len R\<close>.\<close>

definition sample_spec :: "(nat \<Rightarrow> draw) \<Rightarrow> 'a list \<Rightarrow> nat \<Rightarrow> 'a list" where
  "sample_spec random R n =
     (if n \<ge> length R then R
      else drop (length R - n) (partial_shuffle random 0 (length R - 1) n R))"

text \<open>A random source whose every value is 0, so that every drawn position is 0.\<close>

definition zero_draws :: "nat \<Rightarrow> draw" where
  "zero_draws k = draw_of 0 1"

section \<open>Serialisation: \<^verbatim>\<open>JSON.stringify(value, null, 2)\<close>\<close>

definition hex_digit :: "nat \<Rightarrow> char" where
  "hex_digit d = ''0123456789abcdef'' ! d"

definition backslash :: char where
  "backslash = CHR 0x5C"

definition dquote :: char where
  "dquote = CHR 0x22"

text \<open>One code unit inside a JSON string literal.\<close>

definition quote_char :: "char \<Rightarrow> string" where
  "quote_char c =
     (if c = CHR 0x08 then [backslash, CHR ''b'']
      else if c = CHR 0x09 then [backslash, CHR ''t'']
      else if c = CHR 0x0A then [backslash, CHR ''n'']
      else if c = CHR 0x0C then [backslash, CHR ''f'']
      else if c = CHR 0x0D then [backslash, CHR ''r'']
      else if c = dquote then [backslash, dquote]
      else if c = backslash then [backslash, backslash]
      else if (of_char c :: nat) < 32
        then [backslash, CHR ''u'', CHR ''0'', CHR ''0'',
              hex_digit (of_char c div 16), hex_digit (of_char c mod 16)]
      else [c])"

definition QuoteJSONString :: "string \<Rightarrow> string" where
  "QuoteJSONString s = [dquote] @ concat (map quote_char s) @ [dquote]"

fun join_with :: "string \<Rightarrow> string list \<Rightarrow> string" where
  "join_with sep [] = []"
| "join_with sep [x] = x"
| "join_with sep (x # y # ys) = x @ sep @ join_with sep (y # ys)"

text \<open>
  The serialisation of a value at the indentation \<open>indent\<close>, with the gap of two spaces. An
  undefined value has none: as a property it is left out, as an array element it is
  \<^verbatim>\<open>null\<close>. \<open>JSON_properties\<close> and \<open>JSON_elements\<close> take the indentation of the members.
\<close>

fun JSON_value :: "string \<Rightarrow> jsval \<Rightarrow> string option"
  and JSON_properties :: "string \<Rightarrow> (string \<times> jsval) list \<Rightarrow> string list"
  and JSON_elements :: "string \<Rightarrow> jsval list \<Rightarrow> string list" where
  "JSON_value indent JUndefined = None"
| "JSON_value indent JNull = Some ''null''"
| "JSON_value indent (JBool b) = Some (if b then ''true'' else ''false'')"
| "JSON_value indent (JNum n) = Some (show_int n)"
| "JSON_value indent JNaN = Some ''null''"
| "JSON_value indent (JStr s) = Some (QuoteJSONString s)"
| "JSON_value indent (JArr vs) =
     Some (case JSON_elements (indent @ ''  '') vs of
             [] \<Rightarrow> ''[]''
           | p # ps \<Rightarrow>
               ''['' @ [newline] @ indent @ ''  ''
                 @ join_with ('','' @ [newline] @ indent @ ''  '') (p # ps)
                 @ [newline] @ indent @ '']'')"
| "JSON_value indent (JObj kvs) =
     Some (case JSON_properties (indent @ ''  '') kvs of
             [] \<Rightarrow> ''{}''
           | p # ps \<Rightarrow>
               ''{'' @ [newline] @ indent @ ''  ''
                 @ join_with ('','' @ [newline] @ indent @ ''  '') (p # ps)
                 @ [newline] @ indent @ ''}'')"
| "JSON_properties indent [] = []"
| "JSON_properties indent (kv # kvs) =
     (case JSON_value indent (snd kv) of
        None \<Rightarrow> JSON_properties indent kvs
      | Some s \<Rightarrow> (QuoteJSONString (fst kv) @ '': '' @ s) # JSON_properties indent kvs)"
| "JSON_elements indent [] = []"
| "JSON_elements indent (v # vs) =
     (case JSON_value indent v of None \<Rightarrow> ''null'' | Some s \<Rightarrow> s) # JSON_elements indent vs"

text \<open>The tools serialise object literals only.\<close>

definition JSON_stringify :: "jsobj \<Rightarrow> string" where
  "JSON_stringify obj = (case JSON_value [] (JObj obj) of Some s \<Rightarrow> s | None \<Rightarrow> [])"

text \<open>
  The typed values of the tools as the objects that are serialised. The properties of
  \<^verbatim>\<open>by_type\<close> are listed in the order in which the type names were first counted (the
  Directory's type names are not array indices, which an engine would list first).
\<close>

definition summary_json :: "record_summary \<Rightarrow> jsval" where
  "summary_json s =
     JObj [(''total'', JNum (int (record_summary.total s))),
           (''by_type'', JObj (by_type s)),
           (''by_proxied'',
              JObj [(''proxied'', JNum (int (proxied (by_proxied s)))),
                    (''dns_only'', JNum (int (dns_only (by_proxied s))))])]"

definition pagination_json :: "PaginationMeta \<Rightarrow> jsval" where
  "pagination_json m =
     JObj [(''total'', JNum (int (total m))), (''count'', JNum (int (count m))),
           (''page'', JNum (page m)), (''per_page'', JNum (per_page m)),
           (''has_more'', JBool (has_more m))]"

section \<open>Directory errors (utils/errors.ts) and the client (services/cloudflare.ts)\<close>

text \<open>
  A thrown value, as \<^verbatim>\<open>handleApiError\<close> inspects it: the classes it is an instance of, its
  \<^verbatim>\<open>status\<close> (possibly undefined), its \<^verbatim>\<open>message\<close>, and its \<^verbatim>\<open>String(..)\<close>.
\<close>

record thrown =
  is_APIError :: bool
  is_APIConnectionError :: bool
  is_RateLimitError :: bool
  is_AuthenticationError :: bool
  is_Error :: bool
  status :: "int option"
  message :: string
  as_string :: string

text \<open>The dash of the first message is U+2014, written in its three UTF-8 bytes.\<close>

definition handleApiError :: "thrown \<Rightarrow> string" where
  "handleApiError error =
     (if is_APIError error then
        (if status error = Some 400 then
           ''Error (400 Bad Request): '' @ message error
             @ ''. Check your parameters '' @ [CHR 0xE2, CHR 0x80, CHR 0x94]
             @ '' a required field may be missing or malformed.''
         else if status error = Some 401 then
           ''Error (401 Unauthorized): Invalid or expired API token. Verify CLOUDFLARE_API_TOKEN is set and has Zone:Read + DNS:Edit permissions.''
         else if status error = Some 403 then
           ''Error (403 Forbidden): Token lacks required permissions. Ensure it has Zone:Read and DNS:Edit scopes for the target zone.''
         else if status error = Some 404 then
           ''Error (404 Not Found): The requested resource does not exist. Double-check the zone_id and record_id.''
         else if status error = Some 409 then
           ''Error (409 Conflict): A record with this name and type may already exist. Use cf_dns_list_records to check.''
         else if status error = Some 429 then
           ''Error (429 Rate Limited): Cloudflare API rate limit hit (1,200 req / 5 min). Wait a moment and retry.''
         else
           ''Error ('' @ (case status error of None \<Rightarrow> ''undefined'' | Some s \<Rightarrow> show_int s)
             @ ''): '' @ message error)
      else if is_APIConnectionError error then
        ''Error: Could not connect to Cloudflare API. Check network connectivity.''
      else if is_RateLimitError error then
        ''Error: Rate limit exceeded. Cloudflare allows 1,200 requests per 5-minute window. Wait and retry.''
      else if is_AuthenticationError error then
        ''Error: Authentication failed. Verify your CLOUDFLARE_API_TOKEN is valid and not expired.''
      else if is_Error error then ''Error: '' @ message error
      else ''Error: An unexpected error occurred: '' @ as_string error)"

text \<open>\<^verbatim>\<open>new Error(msg)\<close>.\<close>

definition new_Error :: "string \<Rightarrow> thrown" where
  "new_Error msg =
     \<lparr> is_APIError = False, is_APIConnectionError = False, is_RateLimitError = False,
       is_AuthenticationError = False, is_Error = True, status = None, message = msg,
       as_string = ''Error: '' @ msg \<rparr>"

text \<open>
  The process state that \<^verbatim>\<open>getClient\<close> reads: the cached client (here the token it was
  made with) and the environment variable.
\<close>

record process_state =
  cached_client :: "string option"
  CLOUDFLARE_API_TOKEN :: "string option"

definition getClient :: "process_state \<Rightarrow> thrown + string \<times> process_state" where
  "getClient ps =
     (case cached_client ps of
        Some c \<Rightarrow> Inr (c, ps)
      | None \<Rightarrow>
          (case CLOUDFLARE_API_TOKEN ps of
             None \<Rightarrow>
               Inl (new_Error (''CLOUDFLARE_API_TOKEN environment variable is required. ''
                 @ ''Create a token at https://dash.cloudflare.com/profile/api-tokens with Zone:Read and DNS:Edit permissions.''))
           | Some apiToken \<Rightarrow>
               if apiToken = [] then
                 Inl (new_Error (''CLOUDFLARE_API_TOKEN environment variable is required. ''
                   @ ''Create a token at https://dash.cloudflare.com/profile/api-tokens with Zone:Read and DNS:Edit permissions.''))
               else Inr (apiToken, ps\<lparr> cached_client := Some apiToken \<rparr>)))"

text \<open>What a tool returns: the text of its single content item and the error flag.\<close>

record tool_response =
  content_text :: string
  isError :: bool

definition error_response :: "thrown \<Rightarrow> tool_response" where
  "error_response e = \<lparr> content_text = handleApiError e, isError = True \<rparr>"

definition ok_response :: "string \<Rightarrow> tool_response" where
  "ok_response t = \<lparr> content_text = t, isError = False \<rparr>"

section \<open>Query Engine (tools/records-read.ts)\<close>

text \<open>The inputs of the two read tools, after validation by their schemas.\<close>

record ReadFlags =
  zone_id :: string
  concise :: bool
  include_details :: bool

record GetRecordInput = ReadFlags +
  record_id :: string

record ListRecordsInput = ReadFlags +
  page :: int
  per_page :: int
  random_sample :: bool
  sample_size :: int
  filter_type :: "string option"
  filter_name :: "string option"
  filter_content :: "string option"
  filter_proxied :: "bool option"
  filter_comment :: "string option"
  filter_tag :: "string option"
  order :: "string option"
  summary_only :: bool

text \<open>
  What the Directory's listing hands to \<^verbatim>\<open>for await\<close>: the records it yields, one by one,
  until it is done or a request fails.
\<close>

datatype 'a aiter = Done | Yield 'a "'a aiter" | Throw thrown

text \<open>\<^verbatim>\<open>if (s) q[k] = s\<close> for an optional string \<open>s\<close>.\<close>

definition opt_string_param :: "string \<Rightarrow> string option \<Rightarrow> jsobj" where
  "opt_string_param k s = (case s of None \<Rightarrow> [] | Some v \<Rightarrow> if v = [] then [] else [(k, JStr v)])"

text \<open>The query sent to the Directory: \<^verbatim>\<open>{ zone_id: params.zone_id, ...queryParams }\<close>.\<close>

definition list_query :: "ListRecordsInput \<Rightarrow> jsobj" where
  "list_query params =
     [(''zone_id'', JStr (zone_id params)),
      (''page'', JNum (page params)), (''per_page'', JNum (per_page params))]
     @ opt_string_param ''type'' (filter_type params)
     @ opt_string_param ''name.contains'' (filter_name params)
     @ opt_string_param ''content.contains'' (filter_content params)
     @ (case filter_proxied params of None \<Rightarrow> [] | Some b \<Rightarrow> [(''proxied'', JBool b)])
     @ opt_string_param ''comment.contains'' (filter_comment params)
     @ opt_string_param ''tag'' (filter_tag params)
     @ opt_string_param ''order'' (order params)"

text \<open>
  The collecting loop: every yielded record is pushed; outside the summary and sample modes
  the loop breaks once ten pages' worth of records are held.
\<close>

fun collect_records :: "ListRecordsInput \<Rightarrow> jsobj aiter \<Rightarrow> jsobj list \<Rightarrow> thrown + jsobj list" where
  "collect_records params Done records = Inr records"
| "collect_records params (Throw e) records = Inl e"
| "collect_records params (Yield r rest) records =
     (let records' = records @ [r] in
      if int (length records') \<ge> per_page params * 10
           \<and> \<not> summary_only params \<and> \<not> random_sample params
      then Inr records'
      else collect_records params rest records')"

text \<open>
  The handler of \<^verbatim>\<open>cf_dns_list_records\<close> from \<^verbatim>\<open>const total = records.length\<close> on: the
  object it builds in the mode it chooses, and the text it returns for it.
\<close>

definition list_records_respond ::
  "(nat \<Rightarrow> draw) \<Rightarrow> ListRecordsInput \<Rightarrow> jsobj list \<Rightarrow> jsobj \<times> string" where
  "list_records_respond random params records =
     (let concise' = (if include_details params then False else concise params);
          total' = length records
      in
      if summary_only params then
        (let summary = buildRecordSummary records;
             output = [(''summary'', summary_json summary)]
         in (output, JSON_stringify output))
      else if random_sample params then
        (let sampled = sample_of random records (sample_size params);
             formatted = formatRecords sampled concise';
             output =
               [(''sample'', JObj [(''total_in_zone'', JNum (int total')),
                                   (''sample_size'', JNum (int (length formatted)))]),
                (''records'', JArr (map JObj formatted))]
         in (output, truncateIfNeeded (JSON_stringify output)))
      else
        (let start = (page params - 1) * per_page params;
             paged = js_slice records start (start + per_page params);
             formatted = formatRecords paged concise';
             pagination = buildPaginationMeta total' formatted (page params) (per_page params);
             summary = (if total' > 20 then Some (buildRecordSummary records) else None);
             output =
               [(''pagination'', pagination_json pagination)]
               @ (case summary of None \<Rightarrow> [] | Some s \<Rightarrow> [(''summary'', summary_json s)])
               @ [(''records'', JArr (map JObj formatted))]
         in (output, truncateIfNeeded (JSON_stringify output))))"

text \<open>
  \<^verbatim>\<open>cf_dns_list_records\<close>. \<open>list\<close> is the Directory's listing for a query; an error thrown
  by \<^verbatim>\<open>getClient\<close> or by the Directory is caught and reported.
\<close>

definition cf_dns_list_records ::
  "(nat \<Rightarrow> draw) \<Rightarrow> process_state \<Rightarrow> (jsobj \<Rightarrow> jsobj aiter) \<Rightarrow> ListRecordsInput \<Rightarrow> tool_response" where
  "cf_dns_list_records random ps list params =
     (case getClient ps of
        Inl e \<Rightarrow> error_response e
      | Inr client \<Rightarrow>
          (case collect_records params (list (list_query params)) [] of
             Inl e \<Rightarrow> error_response e
           | Inr records \<Rightarrow> ok_response (snd (list_records_respond random params records))))"

text \<open>
  \<^verbatim>\<open>cf_dns_get_record\<close>. \<open>get\<close> is the Directory's lookup of a record id in a zone.
\<close>

definition get_record_respond :: "GetRecordInput \<Rightarrow> jsobj \<Rightarrow> jsobj \<times> string" where
  "get_record_respond params record =
     (let concise' = (if include_details params then False else concise params);
          formatted = formatRecord record concise';
          output = [(''record'', JObj formatted)]
      in (output, JSON_stringify output))"

definition cf_dns_get_record ::
  "process_state \<Rightarrow> (string \<Rightarrow> string \<Rightarrow> thrown + jsobj) \<Rightarrow> GetRecordInput \<Rightarrow> tool_response" where
  "cf_dns_get_record ps get params =
     (case getClient ps of
        Inl e \<Rightarrow> error_response e
      | Inr client \<Rightarrow>
          (case get (record_id params) (zone_id params) of
             Inl e \<Rightarrow> error_response e
           | Inr record \<Rightarrow> ok_response (snd (get_record_respond params record))))"

text \<open>The three forms of a list answer, by the properties of the answered object.\<close>

definition is_summary_form :: "jsobj \<Rightarrow> bool" where
  "is_summary_form output = (map fst output = [''summary''])"

definition is_sample_form :: "jsobj \<Rightarrow> bool" where
  "is_sample_form output = (map fst output = [''sample'', ''records''])"

definition is_paginated_form :: "jsobj \<Rightarrow> bool" where
  "is_paginated_form output =
     (map fst output = [''pagination'', ''records'']
      \<or> map fst output = [''pagination'', ''summary'', ''records''])"

section \<open>Bulk Mutation Engine (tools/records-bulk.ts)\<close>

text \<open>
  One entry of the \<^verbatim>\<open>results\<close> array. The create tool's entries have no \<^verbatim>\<open>record_id\<close>;
  the fields \<^verbatim>\<open>record\<close> and \<^verbatim>\<open>error\<close> are optional.
\<close>

record BulkOutcome =
  index :: nat
  outcome_record_id :: "string option"
  success :: bool
  outcome_record :: "jsobj option"
  outcome_error :: "string option"

definition outcome_json :: "BulkOutcome \<Rightarrow> jsval" where
  "outcome_json r =
     JObj ([(''index'', JNum (int (index r)))]
           @ (case outcome_record_id r of None \<Rightarrow> [] | Some i \<Rightarrow> [(''record_id'', JStr i)])
           @ [(''success'', JBool (success r))]
           @ (case outcome_record r of None \<Rightarrow> [] | Some f \<Rightarrow> [(''record'', JObj f)])
           @ (case outcome_error r of None \<Rightarrow> [] | Some e \<Rightarrow> [(''error'', JStr e)]))"

subsection \<open>\<^verbatim>\<open>cf_dns_bulk_create\<close>\<close>

record BulkCreateRecord =
  type :: string
  name :: string
  content :: string
  ttl :: int
  proxied :: "bool option"
  priority :: "int option"
  comment :: "string option"
  tags :: "string list option"
  data :: "jsobj option"

record BulkCreateInput =
  zone_id :: string
  records :: "BulkCreateRecord list"

text \<open>The argument of \<^verbatim>\<open>client.dns.records.create\<close>: \<^verbatim>\<open>{ zone_id, ...payload }\<close>.\<close>

definition create_payload :: "string \<Rightarrow> BulkCreateRecord \<Rightarrow> jsobj" where
  "create_payload zone rec =
     [(''zone_id'', JStr zone),
      (''type'', JStr (type rec)), (''name'', JStr (name rec)),
      (''content'', JStr (content rec)), (''ttl'', JNum (ttl rec))]
     @ (case proxied rec of None \<Rightarrow> [] | Some b \<Rightarrow> [(''proxied'', JBool b)])
     @ (case priority rec of None \<Rightarrow> [] | Some p \<Rightarrow> [(''priority'', JNum p)])
     @ (case comment rec of None \<Rightarrow> [] | Some c \<Rightarrow> if c = [] then [] else [(''comment'', JStr c)])
     @ (case tags rec of None \<Rightarrow> [] | Some ts \<Rightarrow> [(''tags'', JArr (map JStr ts))])
     @ (case data rec of None \<Rightarrow> [] | Some d \<Rightarrow> [(''data'', JObj d)])"

text \<open>
  The loop of the create handler from index \<open>i\<close> on. \<open>create\<close> is the Directory's create
  operation: in a Directory state, for a payload, it answers with a record or throws, and
  leaves a Directory state. The accumulators are \<^verbatim>\<open>results\<close>, \<^verbatim>\<open>created\<close> and \<^verbatim>\<open>failed\<close>.
\<close>

fun bulk_create_loop ::
  "('d \<Rightarrow> jsobj \<Rightarrow> (thrown + jsobj) \<times> 'd) \<Rightarrow> string \<Rightarrow> BulkCreateRecord list \<Rightarrow> nat \<Rightarrow>
   BulkOutcome list \<Rightarrow> nat \<Rightarrow> nat \<Rightarrow> 'd \<Rightarrow> BulkOutcome list \<times> nat \<times> nat \<times> 'd" where
  "bulk_create_loop create zone [] i results created failed d = (results, created, failed, d)"
| "bulk_create_loop create zone (rec # recs) i results created failed d =
     (case create d (create_payload zone rec) of
        (Inr record, d') \<Rightarrow>
          (let formatted = formatRecord record True in
           bulk_create_loop create zone recs (i + 1)
             (results @ [\<lparr> index = i, outcome_record_id = None, success = True,
                            outcome_record = Some formatted, outcome_error = None \<rparr>])
             (created + 1) failed d')
      | (Inl error, d') \<Rightarrow>
          bulk_create_loop create zone recs (i + 1)
            (results @ [\<lparr> index = i, outcome_record_id = None, success = False,
                           outcome_record = None, outcome_error = Some (handleApiError error) \<rparr>])
            created (failed + 1) d')"

text \<open>The object that the create handler serialises, and the Directory state it leaves.\<close>

definition bulk_create_output ::
  "('d \<Rightarrow> jsobj \<Rightarrow> (thrown + jsobj) \<times> 'd) \<Rightarrow> BulkCreateInput \<Rightarrow> 'd \<Rightarrow> jsobj \<times> 'd" where
  "bulk_create_output create params d =
     (case bulk_create_loop create (zone_id params) (records params) 0 [] 0 0 d of
        (results, created, failed, d') \<Rightarrow>
          ([(''created'', JNum (int created)), (''failed'', JNum (int failed)),
            (''total'', JNum (int (length (records params)))),
            (''results'', JArr (map outcome_json results))], d'))"

definition cf_dns_bulk_create ::
  "process_state \<Rightarrow> ('d \<Rightarrow> jsobj \<Rightarrow> (thrown + jsobj) \<times> 'd) \<Rightarrow> BulkCreateInput \<Rightarrow> 'd \<Rightarrow>
   tool_response \<times> 'd" where
  "cf_dns_bulk_create ps create params d =
     (case getClient ps of
        Inl e \<Rightarrow> (error_response e, d)
      | Inr client \<Rightarrow>
          (case bulk_create_output create params d of
             (output, d') \<Rightarrow> (ok_response (JSON_stringify output), d')))"

subsection \<open>\<^verbatim>\<open>cf_dns_bulk_update\<close>\<close>

record BulkUpdateRecord =
  record_id :: string
  content :: "string option"
  name :: "string option"
  ttl :: "int option"
  proxied :: "bool option"
  comment :: "string option"
  tags :: "string list option"
  data :: "jsobj option"

record BulkUpdateInput =
  zone_id :: string
  records :: "BulkUpdateRecord list"

text \<open>The second argument of \<^verbatim>\<open>client.dns.records.edit\<close>: \<^verbatim>\<open>{ zone_id, ...payload }\<close>.\<close>

definition update_payload :: "string \<Rightarrow> BulkUpdateRecord \<Rightarrow> jsobj" where
  "update_payload zone rec =
     [(''zone_id'', JStr zone)]
     @ (case content rec of None \<Rightarrow> [] | Some c \<Rightarrow> [(''content'', JStr c)])
     @ (case name rec of None \<Rightarrow> [] | Some n \<Rightarrow> [(''name'', JStr n)])
     @ (case ttl rec of None \<Rightarrow> [] | Some t \<Rightarrow> [(''ttl'', JNum t)])
     @ (case proxied rec of None \<Rightarrow> [] | Some b \<Rightarrow> [(''proxied'', JBool b)])
     @ (case comment rec of None \<Rightarrow> [] | Some c \<Rightarrow> [(''comment'', JStr c)])
     @ (case tags rec of None \<Rightarrow> [] | Some ts \<Rightarrow> [(''tags'', JArr (map JStr ts))])
     @ (case data rec of None \<Rightarrow> [] | Some d \<Rightarrow> [(''data'', JObj d)])"

text \<open>
  The loop of the update handler from index \<open>i\<close> on. \<open>edit\<close> is the Directory's edit operation
  for a record id and a payload.
\<close>

fun bulk_update_loop ::
  "('d \<Rightarrow> string \<Rightarrow> jsobj \<Rightarrow> (thrown + jsobj) \<times> 'd) \<Rightarrow> string \<Rightarrow> BulkUpdateRecord list \<Rightarrow> nat \<Rightarrow>
   BulkOutcome list \<Rightarrow> nat \<Rightarrow> nat \<Rightarrow> 'd \<Rightarrow> BulkOutcome list \<times> nat \<times> nat \<times> 'd" where
  "bulk_update_loop edit zone [] i results updated failed d = (results, updated, failed, d)"
| "bulk_update_loop edit zone (rec # recs) i results updated failed d =
     (case edit d (record_id rec) (update_payload zone rec) of
        (Inr record, d') \<Rightarrow>
          (let formatted = formatRecord record True in
           bulk_update_loop edit zone recs (i + 1)
             (results @ [\<lparr> index = i, outcome_record_id = Some (record_id rec), success = True,
                            outcome_record = Some formatted, outcome_error = None \<rparr>])
             (updated + 1) failed d')
      | (Inl error, d') \<Rightarrow>
          bulk_update_loop edit zone recs (i + 1)
            (results @ [\<lparr> index = i, outcome_record_id = Some (record_id rec), success = False,
                           outcome_record = None, outcome_error = Some (handleApiError error) \<rparr>])
            updated (failed + 1) d')"

definition bulk_update_output ::
  "('d \<Rightarrow> string \<Rightarrow> jsobj \<Rightarrow> (thrown + jsobj) \<times> 'd) \<Rightarrow> BulkUpdateInput \<Rightarrow> 'd \<Rightarrow> jsobj \<times> 'd" where
  "bulk_update_output edit params d =
     (case bulk_update_loop edit (zone_id params) (records params) 0 [] 0 0 d of
        (results, updated, failed, d') \<Rightarrow>
          ([(''updated'', JNum (int updated)), (''failed'', JNum (int failed)),
            (''total'', JNum (int (length (records params)))),
            (''results'', JArr (map outcome_json results))], d'))"

definition cf_dns_bulk_update ::
  "process_state \<Rightarrow> ('d \<Rightarrow> string \<Rightarrow> jsobj \<Rightarrow> (thrown + jsobj) \<times> 'd) \<Rightarrow> BulkUpdateInput \<Rightarrow> 'd \<Rightarrow>
   tool_response \<times> 'd" where
  "cf_dns_bulk_update ps edit params d =
     (case getClient ps of
        Inl e \<Rightarrow> (error_response e, d)
      | Inr client \<Rightarrow>
          (case bulk_update_output edit params d of
             (output, d') \<Rightarrow> (ok_response (JSON_stringify output), d')))"

subsection \<open>The Directory's answers to a sequence of calls\<close>

text \<open>
  What the Directory answers when it is called once for each argument of a list, in order,
  each call in the state that the previous one left; and the state after the last call.
\<close>

fun directory_answers ::
  "('d \<Rightarrow> 'p \<Rightarrow> (thrown + jsobj) \<times> 'd) \<Rightarrow> 'p list \<Rightarrow> 'd \<Rightarrow> (thrown + jsobj) list \<times> 'd" where
  "directory_answers call [] d = ([], d)"
| "directory_answers call (p # ps) d =
     (case call d p of
        (answer, d') \<Rightarrow>
          (case directory_answers call ps d' of (answers, d'') \<Rightarrow> (answer # answers, d'')))"

text \<open>The entry that the engine is to record for the answer to operation \<open>i\<close>.\<close>

definition outcome_of :: "nat \<Rightarrow> string option \<Rightarrow> thrown + jsobj \<Rightarrow> BulkOutcome" where
  "outcome_of i rid answer =
     (case answer of
        Inr record \<Rightarrow>
          \<lparr> index = i, outcome_record_id = rid, success = True,
            outcome_record = Some (formatRecord record True), outcome_error = None \<rparr>
      | Inl error \<Rightarrow>
          \<lparr> index = i, outcome_record_id = rid, success = False,
            outcome_record = None, outcome_error = Some (handleApiError error) \<rparr>)"

section \<open>A small Directory and inputs, for the evaluated examples\<close>

definition bad_request :: thrown where
  "bad_request =
     \<lparr> is_APIError = True, is_APIConnectionError = False, is_RateLimitError = False,
       is_AuthenticationError = False, is_Error = True, status = Some 400,
       message = ''Invalid content'', as_string = ''Error: Invalid content'' \<rparr>"

text \<open>
  The state of this Directory is the number of records created so far. It rejects the
  content \<^verbatim>\<open>invalid\<close> and answers every other payload with the payload under a new id.
\<close>

definition example_create :: "nat \<Rightarrow> jsobj \<Rightarrow> (thrown + jsobj) \<times> nat" where
  "example_create d payload =
     (if get_prop payload ''content'' = JStr ''invalid'' then (Inl bad_request, d)
      else (Inr ((''id'', JStr (show_nat d)) # payload), d + 1))"

definition example_edit :: "nat \<Rightarrow> string \<Rightarrow> jsobj \<Rightarrow> (thrown + jsobj) \<times> nat" where
  "example_edit d rid payload =
     (if get_prop payload ''content'' = JStr ''invalid'' then (Inl bad_request, d)
      else (Inr ((''id'', JStr rid) # payload), d + 1))"

definition example_op :: "string \<Rightarrow> BulkCreateRecord" where
  "example_op c =
     \<lparr> type = ''TXT'', name = ''example.com'', BulkCreateRecord.content = c,
       BulkCreateRecord.ttl = 1, BulkCreateRecord.proxied = None, priority = None,
       BulkCreateRecord.comment = None, BulkCreateRecord.tags = None,
       BulkCreateRecord.data = None \<rparr>"

definition example_edit_op :: "string \<Rightarrow> string \<Rightarrow> BulkUpdateRecord" where
  "example_edit_op rid c =
     \<lparr> record_id = rid, content = Some c, name = None, ttl = None, proxied = None,
       comment = None, tags = None, data = None \<rparr>"

definition example_process :: process_state where
  "example_process = \<lparr> cached_client = None, CLOUDFLARE_API_TOKEN = Some ''token'' \<rparr>"

definition example_records :: "jsobj list" where
  "example_records =
     [[(''id'', JStr ''r1''), (''type'', JStr ''A''), (''name'', JStr ''www.example.com''),
       (''content'', JStr ''192.0.2.1''), (''ttl'', JNum 1), (''proxied'', JBool True),
       (''zone_name'', JStr ''example.com'')],
      [(''id'', JStr ''r2''), (''type'', JStr ''MX''), (''name'', JStr ''example.com''),
       (''content'', JStr ''mail.example.com''), (''ttl'', JNum 300), (''proxied'', JBool False),
       (''priority'', JNum 10), (''zone_name'', JStr ''example.com'')],
      [(''id'', JStr ''r3''), (''type'', JStr ''TXT''), (''name'', JStr ''example.com''),
       (''content'', JStr ''v=spf1 -all''), (''ttl'', JNum 300),
       (''zone_name'', JStr ''example.com'')]]"

text \<open>A listing that yields the three example records, whatever the query.\<close>

fun yield_all :: "'a list \<Rightarrow> 'a aiter" where
  "yield_all [] = Done"
| "yield_all (x # xs) = Yield x (yield_all xs)"

definition example_listing :: "jsobj \<Rightarrow> jsobj aiter" where
  "example_listing query = yield_all example_records"

text \<open>A list request for page \<open>p\<close> of two records per page, with the given flags.\<close>

definition example_list_params :: "bool \<Rightarrow> bool \<Rightarrow> bool \<Rightarrow> int \<Rightarrow> ListRecordsInput" where
  "example_list_params summary sample details p =
     \<lparr> ReadFlags.zone_id = ''z1'', concise = True, include_details = details,
       page = p, per_page = 2, random_sample = sample, sample_size = 1,
       filter_type = None, filter_name = None, filter_content = None, filter_proxied = None,
       filter_comment = None, filter_tag = None, order = None, summary_only = summary \<rparr>"

text \<open>A text record with 26,000 characters of content, and a lookup that answers with it.\<close>

definition long_record :: jsobj where
  "long_record =
     [(''id'', JStr ''r9''), (''type'', JStr ''TXT''), (''name'', JStr ''example.com''),
      (''content'', JStr (replicate 26000 CHR ''x'')), (''ttl'', JNum 300)]"

definition long_get :: "string \<Rightarrow> string \<Rightarrow> thrown + jsobj" where
  "long_get rid zone = Inr long_record"

definition example_get_params :: "bool \<Rightarrow> bool \<Rightarrow> GetRecordInput" where
  "example_get_params c details =
     \<lparr> ReadFlags.zone_id = ''z1'', concise = c, include_details = details,
       GetRecordInput.record_id = ''r9'' \<rparr>"

text \<open>
  A text of 30,000 characters whose only newline is at index 20,000, which is 80% of the
  character budget.
\<close>

definition boundary_text :: string where
  "boundary_text = replicate 20000 CHR ''a'' @ newline # replicate 9999 CHR ''a''"

section \<open>Properties of the Record Formatter\<close>

lemma has_key_set_prop: "has_key (set_prop k v obj) k' = (k' = k \<or> has_key obj k')"
  by (simp add: has_key_def set_prop_def update_conv')

lemma get_prop_set_prop: "get_prop (set_prop k v obj) k' = (if k' = k then v else get_prop obj k')"
  by (simp add: get_prop_def set_prop_def update_conv')

text \<open>
  Claim C9. Let \<open>t\<close> be the type as the formatter reads it, \<^verbatim>\<open>String(r.type ?? "")\<close>, and
  \<open>c\<close> the concise projection of \<open>r\<close>. Then \<open>c\<close> has the field \<^verbatim>\<open>proxied\<close> exactly when
  \<open>t\<close> is A, AAAA or CNAME (so never for MX or TXT), and then it is the boolean of the source's
  flag; for MX with a priority present \<open>c\<close> has \<^verbatim>\<open>priority\<close>, the number of the source's; for
  SRV with a data payload \<^verbatim>\<open>priority\<close>, \<^verbatim>\<open>weight\<close> and \<^verbatim>\<open>port\<close> of \<open>c\<close> are those of the
  payload; and the ttl value 1 is rendered as the string \<^verbatim>\<open>auto\<close>.
\<close>

theorem formatRecord_concise_fields:
  "(let t = ToString (nullish (get_prop r ''type'') (JStr '''')); c = formatRecord r True in
      get_prop c ''type'' = JStr t
    \<and> (has_key c ''proxied'' \<longleftrightarrow> t = ''A'' \<or> t = ''AAAA'' \<or> t = ''CNAME'')
    \<and> (t = ''MX'' \<or> t = ''TXT'' \<longrightarrow> \<not> has_key c ''proxied'')
    \<and> (has_key c ''proxied'' \<longrightarrow> get_prop c ''proxied'' = JBool (truthy (get_prop r ''proxied'')))
    \<and> (t = ''MX'' \<and> get_prop r ''priority'' \<noteq> JUndefined \<longrightarrow>
          has_key c ''priority'' \<and> get_prop c ''priority'' = ToNumber (get_prop r ''priority''))
    \<and> (t = ''SRV'' \<and> truthy (get_prop r ''data'') \<longrightarrow>
          has_key c ''priority'' \<and> has_key c ''weight'' \<and> has_key c ''port''
          \<and> get_prop c ''priority'' = member_of (get_prop r ''data'') ''priority''
          \<and> get_prop c ''weight'' = member_of (get_prop r ''data'') ''weight''
          \<and> get_prop c ''port'' = member_of (get_prop r ''data'') ''port'')
    \<and> (get_prop r ''ttl'' = JNum 1 \<longrightarrow> get_prop c ''ttl'' = JStr ''auto''))"
proof -
  define t where "t = ToString (nullish (get_prop r ''type'') (JStr ''''))"
  define r0 where "r0 =
     [(''id'', JStr (ToString (nullish (get_prop r ''id'') (JStr '''')))),
      (''type'', JStr (ToString (nullish (get_prop r ''type'') (JStr '''')))),
      (''name'', JStr (ToString (nullish (get_prop r ''name'') (JStr '''')))),
      (''content'', JStr (ToString (nullish (get_prop r ''content'') (JStr '''')))),
      (''ttl'', if get_prop r ''ttl'' = JNum 1 then JStr ''auto''
                else ToNumber (nullish (get_prop r ''ttl'') (JNum 0)))]"
  define r1 where "r1 =
     (if get_prop r0 ''type'' \<in> set [JStr ''A'', JStr ''AAAA'', JStr ''CNAME'']
      then set_prop ''proxied'' (JBool (truthy (get_prop r ''proxied''))) r0 else r0)"
  define r2 where "r2 =
     (if truthy (get_prop r ''comment'')
      then set_prop ''comment'' (JStr (ToString (get_prop r ''comment''))) r1 else r1)"
  define r3 where "r3 =
     (if truthy (get_prop r ''created_on'')
      then set_prop ''created_on'' (JStr (ToString (get_prop r ''created_on''))) r2 else r2)"
  define r4 where "r4 =
     (if truthy (get_prop r ''modified_on'')
      then set_prop ''modified_on'' (JStr (ToString (get_prop r ''modified_on''))) r3 else r3)"
  define r5 where "r5 =
     (if get_prop r4 ''type'' = JStr ''MX'' \<and> get_prop r ''priority'' \<noteq> JUndefined
      then set_prop ''priority'' (ToNumber (get_prop r ''priority'')) r4 else r4)"
  define r6 where "r6 =
     (if get_prop r5 ''type'' = JStr ''SRV'' \<and> truthy (get_prop r ''data'')
      then set_prop ''port'' (member_of (get_prop r ''data'') ''port'')
             (set_prop ''weight'' (member_of (get_prop r ''data'') ''weight'')
               (set_prop ''priority'' (member_of (get_prop r ''data'') ''priority'') r5))
      else r5)"
  have c: "formatRecord r True = r6"
    unfolding formatRecord_def Let_def r6_def r5_def r4_def r3_def r2_def r1_def r0_def
    by (simp only: not_True_eq_False if_False)
  have ty0: "get_prop r0 ''type'' = JStr t" and ttl0: "get_prop r ''ttl'' = JNum 1 \<Longrightarrow> get_prop r0 ''ttl'' = JStr ''auto''"
    and px0: "\<not> has_key r0 ''proxied''"
    by (simp_all add: r0_def t_def get_prop_def has_key_def)
  have ty1: "get_prop r1 ''type'' = JStr t"
    and px1: "has_key r1 ''proxied'' \<longleftrightarrow> t = ''A'' \<or> t = ''AAAA'' \<or> t = ''CNAME''"
    and pv1: "has_key r1 ''proxied'' \<Longrightarrow> get_prop r1 ''proxied'' = JBool (truthy (get_prop r ''proxied''))"
    and ttl1: "get_prop r ''ttl'' = JNum 1 \<Longrightarrow> get_prop r1 ''ttl'' = JStr ''auto''"
    using ty0 px0 ttl0 by (auto simp: r1_def get_prop_set_prop has_key_set_prop)
  have ty2: "get_prop r2 ''type'' = JStr t"
    and px2: "has_key r2 ''proxied'' \<longleftrightarrow> t = ''A'' \<or> t = ''AAAA'' \<or> t = ''CNAME''"
    and pv2: "has_key r2 ''proxied'' \<Longrightarrow> get_prop r2 ''proxied'' = JBool (truthy (get_prop r ''proxied''))"
    and ttl2: "get_prop r ''ttl'' = JNum 1 \<Longrightarrow> get_prop r2 ''ttl'' = JStr ''auto''"
    using ty1 px1 pv1 ttl1 by (auto simp: r2_def get_prop_set_prop has_key_set_prop split: if_splits)
  have ty3: "get_prop r3 ''type'' = JStr t"
    and px3: "has_key r3 ''proxied'' \<longleftrightarrow> t = ''A'' \<or> t = ''AAAA'' \<or> t = ''CNAME''"
    and pv3: "has_key r3 ''proxied'' \<Longrightarrow> get_prop r3 ''proxied'' = JBool (truthy (get_prop r ''proxied''))"
    and ttl3: "get_prop r ''ttl'' = JNum 1 \<Longrightarrow> get_prop r3 ''ttl'' = JStr ''auto''"
    using ty2 px2 pv2 ttl2 by (auto simp: r3_def get_prop_set_prop has_key_set_prop split: if_splits)
  have ty4: "get_prop r4 ''type'' = JStr t"
    and px4: "has_key r4 ''proxied'' \<longleftrightarrow> t = ''A'' \<or> t = ''AAAA'' \<or> t = ''CNAME''"
    and pv4: "has_key r4 ''proxied'' \<Longrightarrow> get_prop r4 ''proxied'' = JBool (truthy (get_prop r ''proxied''))"
    and ttl4: "get_prop r ''ttl'' = JNum 1 \<Longrightarrow> get_prop r4 ''ttl'' = JStr ''auto''"
    using ty3 px3 pv3 ttl3 by (auto simp: r4_def get_prop_set_prop has_key_set_prop split: if_splits)
  have ty5: "get_prop r5 ''type'' = JStr t"
    and px5: "has_key r5 ''proxied'' \<longleftrightarrow> t = ''A'' \<or> t = ''AAAA'' \<or> t = ''CNAME''"
    and pv5: "has_key r5 ''proxied'' \<Longrightarrow> get_prop r5 ''proxied'' = JBool (truthy (get_prop r ''proxied''))"
    and ttl5: "get_prop r ''ttl'' = JNum 1 \<Longrightarrow> get_prop r5 ''ttl'' = JStr ''auto''"
    and mx5: "t = ''MX'' \<and> get_prop r ''priority'' \<noteq> JUndefined \<Longrightarrow>
          has_key r5 ''priority'' \<and> get_prop r5 ''priority'' = ToNumber (get_prop r ''priority'')"
    using ty4 px4 pv4 ttl4 by (auto simp: r5_def get_prop_set_prop has_key_set_prop split: if_splits)
  have ty6: "get_prop r6 ''type'' = JStr t"
    and px6: "has_key r6 ''proxied'' \<longleftrightarrow> t = ''A'' \<or> t = ''AAAA'' \<or> t = ''CNAME''"
    and pv6: "has_key r6 ''proxied'' \<Longrightarrow> get_prop r6 ''proxied'' = JBool (truthy (get_prop r ''proxied''))"
    and ttl6: "get_prop r ''ttl'' = JNum 1 \<Longrightarrow> get_prop r6 ''ttl'' = JStr ''auto''"
    and mx6: "t = ''MX'' \<and> get_prop r ''priority'' \<noteq> JUndefined \<Longrightarrow>
          has_key r6 ''priority'' \<and> get_prop r6 ''priority'' = ToNumber (get_prop r ''priority'')"
    and srv6: "t = ''SRV'' \<and> truthy (get_prop r ''data'') \<Longrightarrow>
          has_key r6 ''priority'' \<and> has_key r6 ''weight'' \<and> has_key r6 ''port''
          \<and> get_prop r6 ''priority'' = member_of (get_prop r ''data'') ''priority''
          \<and> get_prop r6 ''weight'' = member_of (get_prop r ''data'') ''weight''
          \<and> get_prop r6 ''port'' = member_of (get_prop r ''data'') ''port''"
    using ty5 px5 pv5 ttl5 mx5 by (auto simp: r6_def get_prop_set_prop has_key_set_prop split: if_splits)
  show ?thesis
    unfolding Let_def c t_def[symmetric]
    using ty6 px6 pv6 ttl6 mx6 srv6 by simp
qed


text \<open>An MX record with ttl 1, a priority and a proxied flag, projected.\<close>

theorem formatRecord_concise_fields_witness:
  "formatRecord
     [(''id'', JStr ''r1''), (''type'', JStr ''MX''), (''name'', JStr ''example.com''),
      (''content'', JStr ''mail.example.com''), (''ttl'', JNum 1), (''proxied'', JBool False),
      (''priority'', JNum 10), (''zone_id'', JStr ''z1'')] True
   = [(''id'', JStr ''r1''), (''type'', JStr ''MX''), (''name'', JStr ''example.com''),
      (''content'', JStr ''mail.example.com''), (''ttl'', JStr ''auto''), (''priority'', JNum 10)]
   \<and> \<not> has_key (formatRecord
     [(''id'', JStr ''r1''), (''type'', JStr ''MX''), (''name'', JStr ''example.com''),
      (''content'', JStr ''mail.example.com''), (''ttl'', JNum 1), (''proxied'', JBool False),
      (''priority'', JNum 10), (''zone_id'', JStr ''z1'')] True) ''proxied''"
  using formatRecord_concise_fields
    [of "[(''id'', JStr ''r1''), (''type'', JStr ''MX''), (''name'', JStr ''example.com''),
      (''content'', JStr ''mail.example.com''), (''ttl'', JNum 1), (''proxied'', JBool False),
      (''priority'', JNum 10), (''zone_id'', JStr ''z1'')]"]
  by (simp add: formatRecord_def get_prop_def set_prop_def nullish_def has_key_def)


section \<open>Properties of the Summarizer\<close>















section \<open>Properties of the Size Guard\<close>

lemma lastIndexOf_bounds: "- 1 \<le> lastIndexOf xs c \<and> lastIndexOf xs c < int (length xs)"
  by (induction xs) (auto simp: Let_def)

lemma lastIndexOf_absent: "lastIndexOf xs c < 0 \<longleftrightarrow> c \<notin> set xs"
  using lastIndexOf_bounds[of _ c] by (induction xs) (auto simp: Let_def)

lemma lastIndexOf_hit:
  "0 \<le> lastIndexOf xs c \<Longrightarrow>
     xs ! nat (lastIndexOf xs c) = c
     \<and> (\<forall>j. nat (lastIndexOf xs c) < j \<and> j < length xs \<longrightarrow> xs ! j \<noteq> c)"
proof (induction xs)
  case Nil
  then show ?case by simp
next
  case (Cons x xs)
  show ?case
  proof (cases "0 \<le> lastIndexOf xs c")
    case True
    then have r: "lastIndexOf (x # xs) c = lastIndexOf xs c + 1" by simp
    have n: "nat (lastIndexOf xs c + 1) = Suc (nat (lastIndexOf xs c))" using True by simp
    from Cons.IH[OF True] show ?thesis unfolding r n
      by (auto simp: nth_Cons split: nat.splits)
  next
    case False
    then have "c \<notin> set xs" using lastIndexOf_absent[of xs c] by simp
    moreover have "x = c" "lastIndexOf (x # xs) c = 0"
      using Cons.prems False by (auto simp: Let_def split: if_splits)
    ultimately show ?thesis by (auto simp: nth_Cons split: nat.splits)
  qed
qed

lemma lastIndexOf_eqI:
  assumes "L < length xs" "xs ! L = c" "\<forall>j. L < j \<and> j < length xs \<longrightarrow> xs ! j \<noteq> c"
  shows "lastIndexOf xs c = int L"
proof -
  have "c \<in> set xs" using assms(1,2) by (metis nth_mem)
  then have nn: "0 \<le> lastIndexOf xs c" using lastIndexOf_absent[of xs c] by simp
  let ?r = "nat (lastIndexOf xs c)"
  have lt: "?r < length xs" using lastIndexOf_bounds[of xs c] nn by simp
  from lastIndexOf_hit[OF nn]
  have h: "xs ! ?r = c" "\<forall>j. ?r < j \<and> j < length xs \<longrightarrow> xs ! j \<noteq> c" by simp_all
  have "\<not> ?r < L" using h(2) assms(1,2) by blast
  moreover have "\<not> L < ?r" using assms(3) lt h(1) by blast
  ultimately have "?r = L" by simp
  then show ?thesis using nn by simp
qed

lemma js_slice_prefix: "0 \<le> e \<Longrightarrow> js_slice xs 0 e = take (nat e) xs"
  by (auto simp: js_slice_def Let_def min_def)

lemma truncateIfNeeded_short: "length t \<le> CHARACTER_LIMIT \<Longrightarrow> truncateIfNeeded t = t"
  by (simp add: truncateIfNeeded_def)

lemma truncateIfNeeded_long:
  assumes "CHARACTER_LIMIT < length t"
  shows "truncateIfNeeded t =
     (let r = lastIndexOf (take CHARACTER_LIMIT t) newline in
      (if 4 * int CHARACTER_LIMIT < 5 * r then take (nat r) t else take CHARACTER_LIMIT t)
        @ TRUNCATION_NOTICE)"
proof -
  have b: "lastIndexOf (take CHARACTER_LIMIT t) newline < int CHARACTER_LIMIT"
    using lastIndexOf_bounds[of "take CHARACTER_LIMIT t" newline] assms by simp
  have thr: "(rat_of_int r > rat_of_nat CHARACTER_LIMIT * (8 / 10)) = (4 * int CHARACTER_LIMIT < 5 * r)" for r
  proof -
    have "(rat_of_nat CHARACTER_LIMIT * (8 / 10) < rat_of_int r)
          = (rat_of_int (4 * int CHARACTER_LIMIT) < rat_of_int (5 * r))"
      by (simp add: field_simps)
    then show ?thesis by (simp only: of_int_less_iff)
  qed
  show ?thesis
    using assms b
    by (auto simp: truncateIfNeeded_def Let_def js_slice_prefix thr min_def)
qed


text \<open>
  Claim C6, as the code has it. A text within the character budget of 25,000 is returned unchanged. A longer text
  is answered by a prefix \<open>p\<close> of it, of length at most the budget, followed by the fixed
  notice. If \<open>L\<close> is the index of the last newline before the budget boundary, \<open>p\<close> is the text
  before that newline when \<open>L\<close> is strictly greater than 80% of the budget
  (\<open>4 * budget < 5 * L\<close>), and the first 25,000 characters otherwise (also for \<open>L\<close> equal to 80%
  of the budget), as it is when there is no newline before the boundary.
  The answer to a longer text ends with the notice.
\<close>

theorem truncateIfNeeded_spec:
  "(length t \<le> CHARACTER_LIMIT \<longrightarrow> truncateIfNeeded t = t)
   \<and> (CHARACTER_LIMIT < length t \<longrightarrow>
        (\<exists>p. truncateIfNeeded t = p @ TRUNCATION_NOTICE
             \<and> prefix p t \<and> length p \<le> CHARACTER_LIMIT
             \<and> (\<forall>L. L < CHARACTER_LIMIT \<and> t ! L = newline
                      \<and> (\<forall>j. L < j \<and> j < CHARACTER_LIMIT \<longrightarrow> t ! j \<noteq> newline) \<longrightarrow>
                    (4 * CHARACTER_LIMIT < 5 * L \<longrightarrow> p = take L t)
                    \<and> (5 * L \<le> 4 * CHARACTER_LIMIT \<longrightarrow> p = take CHARACTER_LIMIT t))
             \<and> ((\<forall>i. i < CHARACTER_LIMIT \<longrightarrow> t ! i \<noteq> newline) \<longrightarrow> p = take CHARACTER_LIMIT t))
        \<and> suffix TRUNCATION_NOTICE (truncateIfNeeded t))"
proof (intro conjI impI)
  assume "length t \<le> CHARACTER_LIMIT"
  then show "truncateIfNeeded t = t" by (rule truncateIfNeeded_short)
next
  assume long: "CHARACTER_LIMIT < length t"
  define r where "r = lastIndexOf (take CHARACTER_LIMIT t) newline"
  define p where "p = (if 4 * int CHARACTER_LIMIT < 5 * r then take (nat r) t else take CHARACTER_LIMIT t)"
  have res: "truncateIfNeeded t = p @ TRUNCATION_NOTICE"
    using truncateIfNeeded_long[OF long] by (simp add: Let_def r_def p_def)
  have rb: "r < int CHARACTER_LIMIT"
    using lastIndexOf_bounds[of "take CHARACTER_LIMIT t" newline] long by (simp add: r_def)
  have pre: "prefix p t" by (simp add: p_def take_is_prefix)
  have len: "length p \<le> CHARACTER_LIMIT" using rb long by (auto simp: p_def)
  have last_nl: "(4 * CHARACTER_LIMIT < 5 * L \<longrightarrow> p = take L t)
                 \<and> (5 * L \<le> 4 * CHARACTER_LIMIT \<longrightarrow> p = take CHARACTER_LIMIT t)"
    if L: "L < CHARACTER_LIMIT \<and> t ! L = newline
           \<and> (\<forall>j. L < j \<and> j < CHARACTER_LIMIT \<longrightarrow> t ! j \<noteq> newline)" for L
  proof -
    have "lastIndexOf (take CHARACTER_LIMIT t) newline = int L"
      using L long by (intro lastIndexOf_eqI) auto
    then have "r = int L" by (simp add: r_def)
    then show ?thesis by (auto simp: p_def)
  qed
  have no_nl: "p = take CHARACTER_LIMIT t" if "\<forall>i. i < CHARACTER_LIMIT \<longrightarrow> t ! i \<noteq> newline"
  proof -
    have "newline \<notin> set (take CHARACTER_LIMIT t)"
      using that long by (auto simp: in_set_conv_nth)
    then have "r < 0" using lastIndexOf_absent[of "take CHARACTER_LIMIT t" newline] by (simp add: r_def)
    then show ?thesis by (simp add: p_def)
  qed
  show "\<exists>p. truncateIfNeeded t = p @ TRUNCATION_NOTICE
             \<and> prefix p t \<and> length p \<le> CHARACTER_LIMIT
             \<and> (\<forall>L. L < CHARACTER_LIMIT \<and> t ! L = newline
                      \<and> (\<forall>j. L < j \<and> j < CHARACTER_LIMIT \<longrightarrow> t ! j \<noteq> newline) \<longrightarrow>
                    (4 * CHARACTER_LIMIT < 5 * L \<longrightarrow> p = take L t)
                    \<and> (5 * L \<le> 4 * CHARACTER_LIMIT \<longrightarrow> p = take CHARACTER_LIMIT t))
             \<and> ((\<forall>i. i < CHARACTER_LIMIT \<longrightarrow> t ! i \<noteq> newline) \<longrightarrow> p = take CHARACTER_LIMIT t)"
    using res pre len last_nl no_nl by blast
  show "suffix TRUNCATION_NOTICE (truncateIfNeeded t)"
    unfolding res by (rule suffix_appendI) simp
qed

text \<open>
  A text of 30,000 characters with its only newline at offset 24,500 is cut at that newline;
  a short text is unchanged.
\<close>

theorem truncateIfNeeded_spec_witness:
  "length (replicate 24500 CHR ''a'' @ newline # replicate 5499 CHR ''a'') = 30000
   \<and> truncateIfNeeded (replicate 24500 CHR ''a'' @ newline # replicate 5499 CHR ''a'')
       = replicate 24500 CHR ''a'' @ TRUNCATION_NOTICE
   \<and> truncateIfNeeded ''short text'' = ''short text''"
proof -
  let ?t = "replicate 24500 CHR ''a'' @ newline # replicate 5499 CHR ''a''"
  have len: "CHARACTER_LIMIT < length ?t" by (simp add: CHARACTER_LIMIT_def)
  have nl: "(24500::nat) < CHARACTER_LIMIT \<and> ?t ! 24500 = newline
      \<and> (\<forall>j. 24500 < j \<and> j < CHARACTER_LIMIT \<longrightarrow> ?t ! j \<noteq> newline)"
    by (auto simp: CHARACTER_LIMIT_def nth_append newline_def nth_Cons split: nat.splits)
  have past: "4 * CHARACTER_LIMIT < 5 * (24500::nat)" by (simp add: CHARACTER_LIMIT_def)
  from truncateIfNeeded_spec[of ?t] len obtain p where
    p: "truncateIfNeeded ?t = p @ TRUNCATION_NOTICE"
    and cut: "\<forall>L. L < CHARACTER_LIMIT \<and> ?t ! L = newline
                      \<and> (\<forall>j. L < j \<and> j < CHARACTER_LIMIT \<longrightarrow> ?t ! j \<noteq> newline) \<longrightarrow>
                    (4 * CHARACTER_LIMIT < 5 * L \<longrightarrow> p = take L ?t)
                    \<and> (5 * L \<le> 4 * CHARACTER_LIMIT \<longrightarrow> p = take CHARACTER_LIMIT ?t)"
    by blast
  from cut nl past have "p = take 24500 ?t" by blast
  then have "truncateIfNeeded ?t = replicate 24500 CHR ''a'' @ TRUNCATION_NOTICE"
    using p by simp
  moreover have "truncateIfNeeded ''short text'' = ''short text''"
    using truncateIfNeeded_spec[of "''short text''"] by (simp add: CHARACTER_LIMIT_def)
  ultimately show ?thesis by simp
qed

text \<open>
  Claim C6, as stated, fails: the only newline of the text is at index 20,000, so the text
  before it is 20% short of the budget and not more, yet the answer is the hard cut at
  25,000 characters and not the text before the newline.
\<close>

theorem truncateIfNeeded_boundary:
  "length boundary_text = 30000
   \<and> lastIndexOf (js_slice boundary_text 0 (int CHARACTER_LIMIT)) newline = 20000
   \<and> 5 * (CHARACTER_LIMIT - 20000) \<le> CHARACTER_LIMIT
   \<and> truncateIfNeeded boundary_text = take CHARACTER_LIMIT boundary_text @ TRUNCATION_NOTICE
   \<and> truncateIfNeeded boundary_text \<noteq> take 20000 boundary_text @ TRUNCATION_NOTICE"
proof -
  have len: "length boundary_text = 30000" by (simp add: boundary_text_def)
  have long: "CHARACTER_LIMIT < length boundary_text" by (simp add: len CHARACTER_LIMIT_def)
  have cut: "take CHARACTER_LIMIT boundary_text
      = replicate 20000 CHR ''a'' @ newline # replicate 4999 CHR ''a''"
    by (simp add: boundary_text_def CHARACTER_LIMIT_def)
  have at: "lastIndexOf (take CHARACTER_LIMIT boundary_text) newline = int 20000"
    unfolding cut
    by (rule lastIndexOf_eqI)
       (auto simp: nth_append newline_def nth_Cons split: nat.splits)
  have sl: "js_slice boundary_text 0 (int CHARACTER_LIMIT) = take CHARACTER_LIMIT boundary_text"
    by (simp add: js_slice_prefix)
  have res: "truncateIfNeeded boundary_text
      = take CHARACTER_LIMIT boundary_text @ TRUNCATION_NOTICE"
    using truncateIfNeeded_long[OF long] at by (simp add: Let_def CHARACTER_LIMIT_def)
  have ne: "take CHARACTER_LIMIT boundary_text @ TRUNCATION_NOTICE
      \<noteq> take 20000 boundary_text @ TRUNCATION_NOTICE"
  proof
    assume "take CHARACTER_LIMIT boundary_text @ TRUNCATION_NOTICE
      = take 20000 boundary_text @ TRUNCATION_NOTICE"
    then have "length (take CHARACTER_LIMIT boundary_text) = length (take 20000 boundary_text)"
      by simp
    then show False by (simp add: len CHARACTER_LIMIT_def)
  qed
  show ?thesis
    unfolding res sl using len at ne by (simp add: CHARACTER_LIMIT_def)
qed


section \<open>Properties of the Sampler\<close>

lemma floor_scaled_le: "floor_scaled u (Suc i) \<le> i"
proof transfer
  fix q :: rat and i :: nat
  assume q: "0 \<le> q \<and> q < 1"
  then have "q * of_nat (Suc i) < of_nat (Suc i)"
    by (simp add: mult_less_cancel_right2 del: of_nat_Suc)
  then have "\<lfloor>q * of_nat (Suc i)\<rfloor> < int (Suc i)"
    by (simp add: floor_less_iff del: of_nat_Suc)
  then show "nat \<lfloor>q * of_nat (Suc i)\<rfloor> \<le> i" by simp
qed

lemma swap_elements_length: "length (swap_elements xs i j) = length xs"
  by (simp add: swap_elements_def Let_def)

lemma swap_elements_mset:
  assumes "j < length xs" and "i < length xs"
  shows "mset (swap_elements xs i j) = mset xs"
  unfolding swap_elements_def Let_def using assms by (rule Multiset.mset_swap)

lemma length_partial_shuffle: "length (partial_shuffle random k i m xs) = length xs"
  by (induction m arbitrary: k i xs) (simp_all add: swap_elements_length)

lemma mset_partial_shuffle:
  "i < length xs \<Longrightarrow> mset (partial_shuffle random k i m xs) = mset xs"
proof (induction m arbitrary: k i xs)
  case 0
  then show ?case by simp
next
  case (Suc m)
  have j: "floor_scaled (random k) (i + 1) < length xs"
    using floor_scaled_le[of "random k" i] Suc.prems by simp
  have "mset (partial_shuffle random (Suc k) (i - 1) m (swap_elements xs i (floor_scaled (random k) (i + 1))))
        = mset (swap_elements xs i (floor_scaled (random k) (i + 1)))"
    using Suc.prems by (intro Suc.IH) (simp add: swap_elements_length)
  then show ?case using Suc.prems j by (simp add: swap_elements_mset)
qed

lemma shuffle_loop_store:
  "s < length h \<Longrightarrow>
   shuffle_loop random k i s h = h[s := partial_shuffle random k i i (h ! s)]"
proof (induction i arbitrary: k h)
  case 0
  then show ?case by simp
next
  case (Suc i)
  then show ?case by (simp add: Let_def)
qed

lemma randomSample_all:
  "int (length (h ! items)) \<le> n \<Longrightarrow> randomSample random h items n = (items, h)"
  by (simp add: randomSample_def)

lemma randomSample_some:
  assumes "0 \<le> n" "n < int (length (h ! items))"
  shows "randomSample random h items n =
     (Suc (length h),
      h @ [partial_shuffle random 0 (length (h ! items) - 1) (length (h ! items) - 1) (h ! items),
           take (nat n) (partial_shuffle random 0 (length (h ! items) - 1) (length (h ! items) - 1)
                  (h ! items))])"
proof -
  have sl: "js_slice xs 0 n = take (nat n) xs" for xs :: "'a list"
    using assms(1) by (auto simp: js_slice_def Let_def min_def)
  show ?thesis
    using assms
    by (simp add: randomSample_def alloc_def shuffle_loop_store sl Let_def nth_append
        list_update_append)
qed


text \<open>
  Claim C5. For an array \<open>R\<close> at a valid address of the store and a sample size \<open>n \<ge> 0\<close>, the
  array that \<^verbatim>\<open>randomSample\<close> returns has length \<open>min n (len R)\<close>; it is drawn from \<open>R\<close>
  without replacement (as a multiset it is contained in \<open>R\<close>, so it has no duplicates when \<open>R\<close>
  has none); for \<open>n \<ge> len R\<close> it has the elements of \<open>R\<close>; and every array that was in
  the store before the call, \<open>R\<close> among them, is unchanged after it.
\<close>

theorem randomSample_properties:
  assumes "items < length h" and "0 \<le> n"
  shows "case randomSample random h items n of (res, h') \<Rightarrow>
      res < length h'
    \<and> length (h' ! res) = min (nat n) (length (h ! items))
    \<and> mset (h' ! res) \<subseteq># mset (h ! items)
    \<and> (distinct (h ! items) \<longrightarrow> distinct (h' ! res))
    \<and> (int (length (h ! items)) \<le> n \<longrightarrow> set (h' ! res) = set (h ! items))
    \<and> length h \<le> length h'
    \<and> (\<forall>a. a < length h \<longrightarrow> h' ! a = h ! a)"
proof (cases "int (length (h ! items)) \<le> n")
  case True
  then show ?thesis using assms by (simp add: randomSample_all)
next
  case False
  let ?R = "h ! items"
  let ?ps = "partial_shuffle random 0 (length ?R - 1) (length ?R - 1) ?R"
  have lt: "n < int (length ?R)" using False by simp
  then have ne: "length ?R - 1 < length ?R" using assms(2) by simp
  have ms: "mset ?ps = mset ?R" using ne by (rule mset_partial_shuffle)
  have len: "length ?ps = length ?R" by (rule length_partial_shuffle)
  have sub: "mset (take (nat n) ?ps) \<subseteq># mset ?R"
  proof -
    have "mset (take (nat n) ?ps) \<subseteq># mset (take (nat n) ?ps) + mset (drop (nat n) ?ps)"
      by (rule mset_subset_eq_add_left)
    also have "\<dots> = mset ?ps" by (simp flip: mset_append)
    finally show ?thesis using ms by simp
  qed
  have dist: "distinct (take (nat n) ?ps)" if "distinct ?R"
  proof -
    have "distinct ?ps" using that ms by (metis mset_eq_imp_distinct_iff)
    then show ?thesis by (rule distinct_take)
  qed
  have l: "length (take (nat n) ?ps) = min (nat n) (length ?R)" using len by simp
  show ?thesis
    unfolding randomSample_some[OF assms(2) lt]
    using sub dist l False by (simp add: nth_append)
qed

text \<open>
  Sampling 2 of 3 with the all-zero random source allocates the shuffled copy and the result;
  sampling 5 of 3 returns the argument. The store still holds \<open>[1, 2, 3]\<close> at address 0.
\<close>

theorem randomSample_properties_witness:
  "randomSample zero_draws [[1, 2, 3 :: nat]] 0 2 = (2, [[1, 2, 3], [2, 3, 1], [2, 3]])
   \<and> randomSample zero_draws [[1, 2, 3 :: nat]] 0 5 = (0, [[1, 2, 3]])"
  using randomSample_properties[of 0 "[[1, 2, 3 :: nat]]" 2 zero_draws]
    randomSample_properties[of 0 "[[1, 2, 3 :: nat]]" 5 zero_draws]
  by (simp add: randomSample_def alloc_def js_slice_def swap_elements_def Let_def
      zero_draws_def floor_scaled.rep_eq draw_of.rep_eq eval_nat_numeral)

text \<open>
  Claim C3, as the code has it. For \<open>n \<ge> len R\<close> the sample is \<open>R\<close>. For \<open>0 \<le> n < len R\<close>
  the code runs the backward swapping procedure of the specification on a working copy for
  all \<open>len R - 1\<close> positions \<open>len R - 1, \<dots>, 1\<close> (not only \<open>n\<close> swaps) and returns the first
  \<open>n\<close> positions of the working copy (not the last \<open>n\<close>).
\<close>

theorem sample_of_full_shuffle:
  "(int (length R) \<le> n \<longrightarrow> sample_of random R n = R)
   \<and> (0 \<le> n \<and> n < int (length R) \<longrightarrow>
        sample_of random R n
          = take (nat n) (partial_shuffle random 0 (length R - 1) (length R - 1) R))"
proof (intro conjI impI)
  assume "int (length R) \<le> n"
  then show "sample_of random R n = R"
    by (simp add: sample_of_def randomSample_all)
next
  assume n: "0 \<le> n \<and> n < int (length R)"
  then have "0 \<le> n" "n < int (length ([R] ! 0))" by simp_all
  from randomSample_some[OF this, of random]
  show "sample_of random R n
          = take (nat n) (partial_shuffle random 0 (length R - 1) (length R - 1) R)"
    by (simp add: sample_of_def)
qed

text \<open>One of three and three of three, with the all-zero random source.\<close>

theorem sample_of_full_shuffle_witness:
  "sample_of zero_draws [1, 2, 3 :: nat] 1 = [2]
   \<and> partial_shuffle zero_draws 0 2 2 [1, 2, 3 :: nat] = [2, 3, 1]
   \<and> sample_of zero_draws [1, 2, 3 :: nat] 3 = [1, 2, 3]"
  using sample_of_full_shuffle[of "[1, 2, 3 :: nat]" 1 zero_draws]
    sample_of_full_shuffle[of "[1, 2, 3 :: nat]" 3 zero_draws]
  by (simp add: swap_elements_def Let_def zero_draws_def floor_scaled.rep_eq draw_of.rep_eq eval_nat_numeral)

text \<open>
  Claim C3, as stated, fails: with every draw 0, sampling one of \<open>[1, 2, 3]\<close> the code swaps
  twice and returns the first position, \<open>[2]\<close>, while the procedure of the specification
  swaps once and returns the last position, \<open>[1]\<close>.
\<close>

theorem sample_spec_differs:
  "sample_of zero_draws [1, 2, 3 :: nat] 1 = [2]
   \<and> sample_spec zero_draws [1, 2, 3 :: nat] 1 = [1]
   \<and> sample_of zero_draws [1, 2, 3 :: nat] 1 \<noteq> sample_spec zero_draws [1, 2, 3 :: nat] 1"
  by (simp add: sample_of_def sample_spec_def randomSample_def alloc_def js_slice_def swap_elements_def Let_def
      zero_draws_def floor_scaled.rep_eq draw_of.rep_eq eval_nat_numeral)


section \<open>Properties of the Bulk Mutation Engine\<close>

lemma handleApiError_nonempty: "handleApiError e \<noteq> []"
  by (simp add: handleApiError_def)

lemma length_directory_answers:
  "directory_answers call ps d = (answers, d') \<Longrightarrow> length answers = length ps"
  by (induction ps arbitrary: d answers d') (auto split: prod.splits)

lemma bulk_create_loop_answers:
  "directory_answers create (map (create_payload zone) recs) d = (answers, d_end) \<Longrightarrow>
   bulk_create_loop create zone recs i results created failed d =
     (results @ map (\<lambda>j. outcome_of (i + j) None (answers ! j)) [0..<length recs],
      created + length (filter (\<lambda>a. \<not> isl a) answers),
      failed + length (filter isl answers), d_end)"
proof (induction recs arbitrary: i results created failed d answers)
  case Nil
  then show ?case by simp
next
  case (Cons r recs)
  obtain a d1 where call: "create d (create_payload zone r) = (a, d1)"
    by (cases "create d (create_payload zone r)")
  obtain as where rest: "directory_answers create (map (create_payload zone) recs) d1 = (as, d_end)"
    and answers: "answers = a # as"
    using Cons.prems call by (auto split: prod.splits)
  have shift: "map (\<lambda>j. outcome_of (i + j) None ((a # as) ! j)) [0..<length (r # recs)]
      = outcome_of i None a # map (\<lambda>j. outcome_of (Suc i + j) None (as ! j)) [0..<length recs]"
    by (simp add: upt_conv_Cons map_Suc_upt[symmetric] del: upt_Suc)
  have step: "bulk_create_loop create zone (r # recs) i results created failed d
      = bulk_create_loop create zone recs (Suc i) (results @ [outcome_of i None a])
          (created + (if isl a then 0 else 1)) (failed + (if isl a then 1 else 0)) d1"
    using call by (cases a) (simp_all add: outcome_of_def)
  have counts: "length (filter (\<lambda>a. \<not> isl a) (a # as))
        = (if isl a then 0 else 1) + length (filter (\<lambda>a. \<not> isl a) as)"
    "length (filter isl (a # as)) = (if isl a then 1 else 0) + length (filter isl as)"
    by simp_all
  show ?case
    unfolding step Cons.IH[OF rest] answers shift counts by simp
qed

lemma bulk_update_loop_answers:
  "directory_answers (\<lambda>d p. edit d (fst p) (snd p))
      (map (\<lambda>r. (record_id r, update_payload zone r)) recs) d = (answers, d_end) \<Longrightarrow>
   bulk_update_loop edit zone recs i results updated failed d =
     (results @ map (\<lambda>j. outcome_of (i + j) (Some (record_id (recs ! j))) (answers ! j)) [0..<length recs],
      updated + length (filter (\<lambda>a. \<not> isl a) answers),
      failed + length (filter isl answers), d_end)"
proof (induction recs arbitrary: i results updated failed d answers)
  case Nil
  then show ?case by simp
next
  case (Cons r recs)
  obtain a d1 where call: "edit d (record_id r) (update_payload zone r) = (a, d1)"
    by (cases "edit d (record_id r) (update_payload zone r)")
  obtain as where rest: "directory_answers (\<lambda>d p. edit d (fst p) (snd p))
      (map (\<lambda>r. (record_id r, update_payload zone r)) recs) d1 = (as, d_end)"
    and answers: "answers = a # as"
    using Cons.prems call by (auto split: prod.splits)
  have shift: "map (\<lambda>j. outcome_of (i + j) (Some (record_id ((r # recs) ! j))) ((a # as) ! j))
        [0..<length (r # recs)]
      = outcome_of i (Some (record_id r)) a
        # map (\<lambda>j. outcome_of (Suc i + j) (Some (record_id (recs ! j))) (as ! j)) [0..<length recs]"
    by (simp add: upt_conv_Cons map_Suc_upt[symmetric] del: upt_Suc)
  have step: "bulk_update_loop edit zone (r # recs) i results updated failed d
      = bulk_update_loop edit zone recs (Suc i) (results @ [outcome_of i (Some (record_id r)) a])
          (updated + (if isl a then 0 else 1)) (failed + (if isl a then 1 else 0)) d1"
    using call by (cases a) (simp_all add: outcome_of_def)
  have counts: "length (filter (\<lambda>a. \<not> isl a) (a # as))
        = (if isl a then 0 else 1) + length (filter (\<lambda>a. \<not> isl a) as)"
    "length (filter isl (a # as)) = (if isl a then 1 else 0) + length (filter isl as)"
    by simp_all
  show ?case
    unfolding step Cons.IH[OF rest] answers shift counts by simp
qed

lemma filter_isl_split: "length (filter (\<lambda>a. \<not> isl a) xs) = length xs - length (filter isl xs)"
  using sum_length_filter_compl[of isl xs] by simp


text \<open>
  Claim C2. Let the Directory answer the calls for the operations of a bulk create, one
  after the other, with \<open>answers\<close>, of which \<open>k\<close> are failures. Then the engine ends with
  \<^verbatim>\<open>failed = k\<close> and \<^verbatim>\<open>created = length - k\<close>, reports \<^verbatim>\<open>total = length\<close>, and has one entry per
  operation in input order: entry \<open>i\<close> has index \<open>i\<close>, is a success exactly when answer \<open>i\<close> is
  a record, and carries a non-empty error description when it is a failure. The Directory
  is left in the state after all the calls, so a failure keeps no later operation from being
  attempted. The same holds for a bulk update, with \<^verbatim>\<open>updated\<close> for \<^verbatim>\<open>created\<close>. Once
  \<^verbatim>\<open>getClient\<close> has returned a client, the handlers answer with the serialised result.
\<close>

theorem bulk_engine_outcomes:
  "(case directory_answers create
           (map (create_payload (BulkCreateInput.zone_id cparams)) (BulkCreateInput.records cparams)) d
    of (answers, d_end) \<Rightarrow>
      case bulk_create_loop create (BulkCreateInput.zone_id cparams)
             (BulkCreateInput.records cparams) 0 [] 0 0 d
      of (results, created, failed, d') \<Rightarrow>
          failed = length (filter isl answers)
        \<and> created = length (BulkCreateInput.records cparams) - length (filter isl answers)
        \<and> length results = length (BulkCreateInput.records cparams)
        \<and> (\<forall>i. i < length (BulkCreateInput.records cparams) \<longrightarrow>
              index (results ! i) = i
            \<and> success (results ! i) = (\<not> isl (answers ! i))
            \<and> results ! i = outcome_of i None (answers ! i)
            \<and> (isl (answers ! i) \<longrightarrow> (\<exists>e. outcome_error (results ! i) = Some e \<and> e \<noteq> [])))
        \<and> d' = d_end
        \<and> bulk_create_output create cparams d =
            ([(''created'', JNum (int created)), (''failed'', JNum (int failed)),
              (''total'', JNum (int (length (BulkCreateInput.records cparams)))),
              (''results'', JArr (map outcome_json results))], d_end))
   \<and> (case directory_answers (\<lambda>d p. edit d (fst p) (snd p))
           (map (\<lambda>r. (record_id r, update_payload (zone_id uparams) r)) (records uparams)) u
    of (answers, u_end) \<Rightarrow>
      case bulk_update_loop edit (zone_id uparams) (records uparams) 0 [] 0 0 u
      of (results, updated, failed, u') \<Rightarrow>
          failed = length (filter isl answers)
        \<and> updated = length (records uparams) - length (filter isl answers)
        \<and> length results = length (records uparams)
        \<and> (\<forall>i. i < length (records uparams) \<longrightarrow>
              index (results ! i) = i
            \<and> success (results ! i) = (\<not> isl (answers ! i))
            \<and> results ! i = outcome_of i (Some (record_id (records uparams ! i))) (answers ! i)
            \<and> (isl (answers ! i) \<longrightarrow> (\<exists>e. outcome_error (results ! i) = Some e \<and> e \<noteq> [])))
        \<and> u' = u_end
        \<and> bulk_update_output edit uparams u =
            ([(''updated'', JNum (int updated)), (''failed'', JNum (int failed)),
              (''total'', JNum (int (length (records uparams)))),
              (''results'', JArr (map outcome_json results))], u_end))
   \<and> (\<forall>client. getClient ps = Inr client \<longrightarrow>
          cf_dns_bulk_create ps create cparams d
            = (ok_response (JSON_stringify (fst (bulk_create_output create cparams d))),
               snd (bulk_create_output create cparams d))
        \<and> cf_dns_bulk_update ps edit uparams u
            = (ok_response (JSON_stringify (fst (bulk_update_output edit uparams u))),
               snd (bulk_update_output edit uparams u)))"
proof -
  have entry: "index (outcome_of i rid a) = i \<and> success (outcome_of i rid a) = (\<not> isl a)
      \<and> (isl a \<longrightarrow> (\<exists>e. outcome_error (outcome_of i rid a) = Some e \<and> e \<noteq> []))" for i rid a
    by (cases a) (simp_all add: outcome_of_def handleApiError_nonempty)
  obtain ca cd where ca: "directory_answers create
           (map (create_payload (BulkCreateInput.zone_id cparams)) (BulkCreateInput.records cparams)) d
        = (ca, cd)"
    by (cases "directory_answers create
           (map (create_payload (BulkCreateInput.zone_id cparams)) (BulkCreateInput.records cparams)) d")
  have cl: "length ca = length (BulkCreateInput.records cparams)"
    using length_directory_answers[OF ca] by simp
  note cloop = bulk_create_loop_answers[OF ca, of 0 "[]" 0 0]
  have create_part: "(case directory_answers create
           (map (create_payload (BulkCreateInput.zone_id cparams)) (BulkCreateInput.records cparams)) d
    of (answers, d_end) \<Rightarrow>
      case bulk_create_loop create (BulkCreateInput.zone_id cparams)
             (BulkCreateInput.records cparams) 0 [] 0 0 d
      of (results, created, failed, d') \<Rightarrow>
          failed = length (filter isl answers)
        \<and> created = length (BulkCreateInput.records cparams) - length (filter isl answers)
        \<and> length results = length (BulkCreateInput.records cparams)
        \<and> (\<forall>i. i < length (BulkCreateInput.records cparams) \<longrightarrow>
              index (results ! i) = i
            \<and> success (results ! i) = (\<not> isl (answers ! i))
            \<and> results ! i = outcome_of i None (answers ! i)
            \<and> (isl (answers ! i) \<longrightarrow> (\<exists>e. outcome_error (results ! i) = Some e \<and> e \<noteq> [])))
        \<and> d' = d_end
        \<and> bulk_create_output create cparams d =
            ([(''created'', JNum (int created)), (''failed'', JNum (int failed)),
              (''total'', JNum (int (length (BulkCreateInput.records cparams)))),
              (''results'', JArr (map outcome_json results))], d_end))"
    unfolding ca bulk_create_output_def cloop
    using entry cl by (simp add: filter_isl_split)
  obtain ua ud where ua: "directory_answers (\<lambda>d p. edit d (fst p) (snd p))
           (map (\<lambda>r. (record_id r, update_payload (zone_id uparams) r)) (records uparams)) u
        = (ua, ud)"
    by (cases "directory_answers (\<lambda>d p. edit d (fst p) (snd p))
           (map (\<lambda>r. (record_id r, update_payload (zone_id uparams) r)) (records uparams)) u")
  have ul: "length ua = length (records uparams)"
    using length_directory_answers[OF ua] by simp
  note uloop = bulk_update_loop_answers[OF ua, of 0 "[]" 0 0]
  have update_part: "(case directory_answers (\<lambda>d p. edit d (fst p) (snd p))
           (map (\<lambda>r. (record_id r, update_payload (zone_id uparams) r)) (records uparams)) u
    of (answers, u_end) \<Rightarrow>
      case bulk_update_loop edit (zone_id uparams) (records uparams) 0 [] 0 0 u
      of (results, updated, failed, u') \<Rightarrow>
          failed = length (filter isl answers)
        \<and> updated = length (records uparams) - length (filter isl answers)
        \<and> length results = length (records uparams)
        \<and> (\<forall>i. i < length (records uparams) \<longrightarrow>
              index (results ! i) = i
            \<and> success (results ! i) = (\<not> isl (answers ! i))
            \<and> results ! i = outcome_of i (Some (record_id (records uparams ! i))) (answers ! i)
            \<and> (isl (answers ! i) \<longrightarrow> (\<exists>e. outcome_error (results ! i) = Some e \<and> e \<noteq> [])))
        \<and> u' = u_end
        \<and> bulk_update_output edit uparams u =
            ([(''updated'', JNum (int updated)), (''failed'', JNum (int failed)),
              (''total'', JNum (int (length (records uparams)))),
              (''results'', JArr (map outcome_json results))], u_end))"
    unfolding ua bulk_update_output_def uloop
    using entry ul by (simp add: filter_isl_split)
  have handlers: "\<forall>client. getClient ps = Inr client \<longrightarrow>
          cf_dns_bulk_create ps create cparams d
            = (ok_response (JSON_stringify (fst (bulk_create_output create cparams d))),
               snd (bulk_create_output create cparams d))
        \<and> cf_dns_bulk_update ps edit uparams u
            = (ok_response (JSON_stringify (fst (bulk_update_output edit uparams u))),
               snd (bulk_update_output edit uparams u))"
    by (simp add: cf_dns_bulk_create_def cf_dns_bulk_update_def split: prod.splits)
  show ?thesis using create_part update_part handlers by (intro conjI)
qed


lemmas example_defs = example_create_def example_edit_def example_op_def example_edit_op_def
  bad_request_def create_payload_def update_payload_def get_prop_def set_prop_def nullish_def
  formatRecord_def outcome_of_def

text \<open>
  Five creates of which the fourth (index 3) is rejected: four created, one failed, entries
  in input order, four records in the Directory. Two updates of which the first is rejected.
\<close>

theorem bulk_engine_outcomes_witness:
  "(case bulk_create_loop example_create ''z1''
           (map example_op [''v0'', ''v1'', ''v2'', ''invalid'', ''v4'']) 0 [] 0 0 0
    of (results, created, failed, d') \<Rightarrow>
         created = 4 \<and> failed = 1 \<and> d' = 4
       \<and> map index results = [0, 1, 2, 3, 4]
       \<and> map success results = [True, True, True, False, True]
       \<and> outcome_error (results ! 3) = Some (handleApiError bad_request))
   \<and> (case bulk_update_loop example_edit ''z1''
           [example_edit_op ''r1'' ''invalid'', example_edit_op ''r2'' ''v2''] 0 [] 0 0 0
    of (results, updated, failed, u') \<Rightarrow>
         updated = 1 \<and> failed = 1 \<and> u' = 1
       \<and> map index results = [0, 1] \<and> map success results = [False, True])
   \<and> getClient example_process
       = Inr (''token'', \<lparr> cached_client = Some ''token'', CLOUDFLARE_API_TOKEN = Some ''token'' \<rparr>)"
  using bulk_engine_outcomes
    [where create = example_create and d = 0 and edit = example_edit and u = 0
       and ps = example_process
       and cparams = "\<lparr> BulkCreateInput.zone_id = ''z1'',
           BulkCreateInput.records = map example_op [''v0'', ''v1'', ''v2'', ''invalid'', ''v4''] \<rparr>"
       and uparams = "\<lparr> zone_id = ''z1'',
           records = [example_edit_op ''r1'' ''invalid'', example_edit_op ''r2'' ''v2''] \<rparr>"]
  by (simp add: example_defs getClient_def example_process_def)


section \<open>Properties of the Query Engine\<close>

lemma take_min_length: "take (min n (length ys)) ys = take n ys"
  by (cases "n \<le> length ys") (simp_all add: min_def)

lemma js_slice_page:
  assumes "0 \<le> s" and "0 \<le> p"
  shows "js_slice xs s (s + p) = take (nat p) (drop (nat s) xs)"
proof (cases "s \<le> int (length xs)")
  case True
  have "nat (min (s + p) (int (length xs)) - s) = min (nat p) (length (drop (nat s) xs))"
    using assms True by (simp add: min_def) linarith
  then have "js_slice xs s (s + p) = take (min (nat p) (length (drop (nat s) xs))) (drop (nat s) xs)"
    using assms True by (simp add: js_slice_def Let_def min_def)
  then show ?thesis by (simp only: take_min_length)
next
  case False
  then have "drop (nat s) xs = []" "drop (length xs) xs = []" by simp_all
  then show ?thesis using assms False by (simp add: js_slice_def Let_def min_def)
qed

lemma list_records_handler:
  "getClient ps = Inr client \<Longrightarrow>
   collect_records params (list (list_query params)) [] = Inr fetched \<Longrightarrow>
   cf_dns_list_records random ps list params
     = ok_response (snd (list_records_respond random params fetched))"
  by (simp add: cf_dns_list_records_def)

lemma get_record_handler:
  "getClient ps = Inr client \<Longrightarrow>
   get (GetRecordInput.record_id params) (ReadFlags.zone_id params) = Inr record \<Longrightarrow>
   cf_dns_get_record ps get params = ok_response (snd (get_record_respond params record))"
  by (simp add: cf_dns_get_record_def)

lemma respond_summary:
  "summary_only params \<Longrightarrow>
   list_records_respond random params fetched =
     ([(''summary'', summary_json (buildRecordSummary fetched))],
      JSON_stringify [(''summary'', summary_json (buildRecordSummary fetched))])"
  by (simp add: list_records_respond_def Let_def)

lemma respond_sample:
  "\<not> summary_only params \<Longrightarrow> random_sample params \<Longrightarrow>
   list_records_respond random params fetched =
     (let formatted = formatRecords (sample_of random fetched (sample_size params))
                        (\<not> include_details params \<and> concise params);
          output = [(''sample'', JObj [(''total_in_zone'', JNum (int (length fetched))),
                                       (''sample_size'', JNum (int (length formatted)))]),
                    (''records'', JArr (map JObj formatted))]
      in (output, truncateIfNeeded (JSON_stringify output)))"
  by (simp add: list_records_respond_def Let_def)

lemma respond_paginated:
  "\<not> summary_only params \<Longrightarrow> \<not> random_sample params \<Longrightarrow>
   list_records_respond random params fetched =
     (let start = (page params - 1) * per_page params;
          formatted = formatRecords (js_slice fetched start (start + per_page params))
                        (\<not> include_details params \<and> concise params);
          output =
            [(''pagination'',
               pagination_json
                 (buildPaginationMeta (length fetched) formatted (page params) (per_page params)))]
            @ (if length fetched > 20 then [(''summary'', summary_json (buildRecordSummary fetched))]
               else [])
            @ [(''records'', JArr (map JObj formatted))]
      in (output, truncateIfNeeded (JSON_stringify output)))"
  by (simp add: list_records_respond_def Let_def)

text \<open>
  Claim C4. The object answered to a list request has exactly one of the three forms,
  chosen by the precedence summary, then sample, then paginated: with \<^verbatim>\<open>summary_only\<close> set it
  is the summary form whatever \<^verbatim>\<open>random_sample\<close> is; with \<^verbatim>\<open>summary_only\<close> unset and
  \<^verbatim>\<open>random_sample\<close> set it is the sample form; otherwise the paginated form. This is the
  object whose text the handler returns once the client and the records have been fetched.
\<close>

theorem list_records_one_form:
  "(let output = fst (list_records_respond random params fetched) in
      (summary_only params \<longrightarrow> is_summary_form output)
    \<and> (\<not> summary_only params \<and> random_sample params \<longrightarrow> is_sample_form output)
    \<and> (\<not> summary_only params \<and> \<not> random_sample params \<longrightarrow> is_paginated_form output)
    \<and> (is_summary_form output \<and> \<not> is_sample_form output \<and> \<not> is_paginated_form output
       \<or> \<not> is_summary_form output \<and> is_sample_form output \<and> \<not> is_paginated_form output
       \<or> \<not> is_summary_form output \<and> \<not> is_sample_form output \<and> is_paginated_form output))
   \<and> (\<forall>client. getClient ps = Inr client
          \<and> collect_records params (list (list_query params)) [] = Inr fetched \<longrightarrow>
        cf_dns_list_records random ps list params
          = ok_response (snd (list_records_respond random params fetched)))"
proof -
  consider (summary) "summary_only params"
    | (sample) "\<not> summary_only params" "random_sample params"
    | (paginated) "\<not> summary_only params" "\<not> random_sample params"
    by blast
  then have forms: "let output = fst (list_records_respond random params fetched) in
      (summary_only params \<longrightarrow> is_summary_form output)
    \<and> (\<not> summary_only params \<and> random_sample params \<longrightarrow> is_sample_form output)
    \<and> (\<not> summary_only params \<and> \<not> random_sample params \<longrightarrow> is_paginated_form output)
    \<and> (is_summary_form output \<and> \<not> is_sample_form output \<and> \<not> is_paginated_form output
       \<or> \<not> is_summary_form output \<and> is_sample_form output \<and> \<not> is_paginated_form output
       \<or> \<not> is_summary_form output \<and> \<not> is_sample_form output \<and> is_paginated_form output)"
  proof cases
    case summary
    then show ?thesis
      by (simp add: respond_summary is_summary_form_def is_sample_form_def is_paginated_form_def)
  next
    case sample
    then show ?thesis
      by (simp add: respond_sample Let_def is_summary_form_def is_sample_form_def
          is_paginated_form_def)
  next
    case paginated
    then show ?thesis
      by (simp add: respond_paginated Let_def is_summary_form_def is_sample_form_def
          is_paginated_form_def)
  qed
  show ?thesis using forms list_records_handler by blast
qed


lemmas read_example_defs = example_list_params_def example_records_def example_listing_def
  example_process_def getClient_def list_query_def opt_string_param_def

lemma example_fetch:
  "collect_records (example_list_params summary sample details p)
     (example_listing (list_query (example_list_params summary sample details p))) []
   = Inr example_records"
  by (simp add: read_example_defs)

lemma example_client:
  "getClient example_process
   = Inr (''token'', \<lparr> cached_client = Some ''token'', CLOUDFLARE_API_TOKEN = Some ''token'' \<rparr>)"
  by (simp add: read_example_defs)

text \<open>
  The three example records requested with both flags set, with the sample flag only, and
  with neither.
\<close>

theorem list_records_one_form_witness:
  "map fst (fst (list_records_respond zero_draws (example_list_params True True False 1)
        example_records)) = [''summary'']
   \<and> map fst (fst (list_records_respond zero_draws (example_list_params False True False 1)
        example_records)) = [''sample'', ''records'']
   \<and> map fst (fst (list_records_respond zero_draws (example_list_params False False False 1)
        example_records)) = [''pagination'', ''records'']
   \<and> cf_dns_list_records zero_draws example_process example_listing
        (example_list_params True True False 1)
      = ok_response (snd (list_records_respond zero_draws (example_list_params True True False 1)
          example_records))"
proof -
  have s: "summary_only (example_list_params True True False 1)"
    and a: "\<not> summary_only (example_list_params False True False 1)
            \<and> random_sample (example_list_params False True False 1)"
    and p: "\<not> summary_only (example_list_params False False False 1)
            \<and> \<not> random_sample (example_list_params False False False 1)"
    by (simp_all add: example_list_params_def)
  have one: "is_summary_form (fst (list_records_respond zero_draws
        (example_list_params True True False 1) example_records))"
    using list_records_one_form[of zero_draws "example_list_params True True False 1"
        example_records example_process example_listing] s
    by (simp add: Let_def)
  have two: "is_sample_form (fst (list_records_respond zero_draws
        (example_list_params False True False 1) example_records))"
    using list_records_one_form[of zero_draws "example_list_params False True False 1"
        example_records example_process example_listing] a
    by (simp add: Let_def)
  have small: "\<not> 20 < length example_records" by (simp add: example_records_def)
  have three': "map fst (fst (list_records_respond zero_draws
        (example_list_params False False False 1) example_records)) = [''pagination'', ''records'']"
    using p small by (simp add: respond_paginated Let_def)
  have handler: "cf_dns_list_records zero_draws example_process example_listing
        (example_list_params True True False 1)
      = ok_response (snd (list_records_respond zero_draws (example_list_params True True False 1)
          example_records))"
    using list_records_one_form[of zero_draws "example_list_params True True False 1"
        example_records example_process example_listing] example_fetch example_client
    by simp
  show ?thesis
    using one two three' handler by (simp add: is_summary_form_def is_sample_form_def)
qed


lemma get_prop_records_paginated:
  "get_prop ([(''pagination'', m)] @ (if b then [(''summary'', s)] else []) @ [(''records'', r)])
     ''records'' = r"
  "get_prop ([(''pagination'', m)] @ (if b then [(''summary'', s)] else []) @ [(''records'', r)])
     ''pagination'' = m"
  by (simp_all add: get_prop_def)

text \<open>
  Claim C8. In paginated mode, with \<open>page \<ge> 1\<close> and \<open>per_page \<ge> 1\<close>, over the fetched record
  set: the answered records are the formatted slice \<open>[(page-1)*per_page, page*per_page)\<close> of
  the set; the pagination object has \<^verbatim>\<open>total\<close> the size of the set, \<^verbatim>\<open>count\<close> the number of
  items on the page and \<^verbatim>\<open>has_more = (page * per_page < total)\<close>; a page beyond the last has
  count 0, and the answer is not an error.
\<close>

theorem paginated_mode_page:
  assumes "\<not> summary_only params" and "\<not> random_sample params"
    and "1 \<le> page params" and "1 \<le> per_page params"
  shows "let output = fst (list_records_respond random params fetched);
             start = nat ((page params - 1) * per_page params);
             items = take (nat (per_page params)) (drop start fetched)
         in get_prop output ''records''
              = JArr (map JObj (formatRecords items (\<not> include_details params \<and> concise params)))
          \<and> get_prop output ''pagination''
              = pagination_json
                  \<lparr> total = length fetched, count = length items,
                    PaginationMeta.page = page params, PaginationMeta.per_page = per_page params,
                    has_more = (page params * per_page params < int (length fetched)) \<rparr>
          \<and> (\<forall>i. i < length items \<longrightarrow> items ! i = fetched ! (start + i))
          \<and> length items = min (nat (per_page params)) (length fetched - start)
          \<and> (length fetched \<le> start \<longrightarrow> length items = 0)
          \<and> (\<forall>client. getClient ps = Inr client
                 \<and> collect_records params (list (list_query params)) [] = Inr fetched \<longrightarrow>
               isError (cf_dns_list_records random ps list params) = False)"
proof -
  have s0: "0 \<le> (page params - 1) * per_page params" using assms(3,4) by simp
  have p0: "0 \<le> per_page params" using assms(4) by simp
  have sl: "js_slice fetched ((page params - 1) * per_page params)
              ((page params - 1) * per_page params + per_page params)
            = take (nat (per_page params)) (drop (nat ((page params - 1) * per_page params)) fetched)"
    using s0 p0 by (rule js_slice_page)
  have handler: "isError (cf_dns_list_records random ps list params) = False"
    if "getClient ps = Inr client \<and> collect_records params (list (list_query params)) [] = Inr fetched"
    for client
    using that by (simp add: list_records_handler ok_response_def)
  show ?thesis
    unfolding respond_paginated[OF assms(1,2)] Let_def fst_conv get_prop_records_paginated sl
    using handler
    by (auto simp: buildPaginationMeta_def formatRecords_def min.commute)
qed


text \<open>
  Three records, two per page: page 2 holds one record, page 3 is an empty page and no error.
\<close>

theorem paginated_mode_page_witness:
  "get_prop (fst (list_records_respond zero_draws (example_list_params False False False 2)
       example_records)) ''pagination''
     = pagination_json \<lparr> total = 3, count = 1, PaginationMeta.page = 2,
         PaginationMeta.per_page = 2, has_more = False \<rparr>
   \<and> get_prop (fst (list_records_respond zero_draws (example_list_params False False False 3)
       example_records)) ''pagination''
     = pagination_json \<lparr> total = 3, count = 0, PaginationMeta.page = 3,
         PaginationMeta.per_page = 2, has_more = False \<rparr>
   \<and> get_prop (fst (list_records_respond zero_draws (example_list_params False False False 3)
       example_records)) ''records'' = JArr []
   \<and> isError (cf_dns_list_records zero_draws example_process example_listing
        (example_list_params False False False 3)) = False"
proof -
  have h: "\<not> summary_only (example_list_params False False False p)"
    "\<not> random_sample (example_list_params False False False p)"
    "page (example_list_params False False False p) = p"
    "per_page (example_list_params False False False p) = 2" for p
    by (simp_all add: example_list_params_def)
  have two: "1 \<le> page (example_list_params False False False 2)"
    and three: "1 \<le> page (example_list_params False False False 3)"
    and pp: "1 \<le> per_page (example_list_params False False False p)" for p
    by (simp_all add: h)
  have len: "length example_records = 3" by (simp add: example_records_def)
  have d2: "length (take 2 (drop 2 example_records)) = 1" by (simp add: len)
  have d4: "take 2 (drop 4 example_records) = []" by (simp add: len)
  note p2 = paginated_mode_page[OF h(1) h(2) two pp, of zero_draws example_records
        example_process example_listing]
  note p3 = paginated_mode_page[OF h(1) h(2) three pp, of zero_draws example_records
        example_process example_listing]
  have a: "get_prop (fst (list_records_respond zero_draws (example_list_params False False False 2)
       example_records)) ''pagination''
     = pagination_json \<lparr> total = 3, count = 1, PaginationMeta.page = 2,
         PaginationMeta.per_page = 2, has_more = False \<rparr>"
    using p2 by (simp add: Let_def h len d2)
  have b: "get_prop (fst (list_records_respond zero_draws (example_list_params False False False 3)
       example_records)) ''pagination''
     = pagination_json \<lparr> total = 3, count = 0, PaginationMeta.page = 3,
         PaginationMeta.per_page = 2, has_more = False \<rparr>"
    using p3 by (simp add: Let_def h len d4)
  have c: "get_prop (fst (list_records_respond zero_draws (example_list_params False False False 3)
       example_records)) ''records'' = JArr []"
    using p3 by (simp add: Let_def h d4 formatRecords_def)
  have d: "isError (cf_dns_list_records zero_draws example_process example_listing
        (example_list_params False False False 3)) = False"
    using p3 example_fetch[of False False False 3] example_client by (simp add: Let_def)
  show ?thesis using a b c d by (intro conjI)
qed

lemma formatRecords_full: "formatRecords rs False = rs"
  by (simp add: formatRecords_def formatRecord_def)

lemma formatRecords_flag:
  "formatRecords rs (\<not> d \<and> c) = (if \<not> d \<and> c then map (\<lambda>r. formatRecord r True) rs else rs)"
  by (simp add: formatRecords_full) (simp add: formatRecords_def)

lemma get_prop_records_sample: "get_prop [(''sample'', m), (''records'', r)] ''records'' = r"
  by (simp add: get_prop_def)

text \<open>
  Claim C10. In the sample and paginated modes of a list request and in a get request, the
  records are returned unchanged when \<^verbatim>\<open>include_details\<close> is true, whatever \<^verbatim>\<open>concise\<close> is;
  the concise projection is applied exactly when \<^verbatim>\<open>include_details\<close> is false and \<^verbatim>\<open>concise\<close> is
  true. The formatter with \<open>concise = False\<close> is the identity.
\<close>

theorem include_details_overrides_concise:
  "(\<not> summary_only params \<longrightarrow>
      (let output = fst (list_records_respond random params fetched);
           selected =
             (if random_sample params then sample_of random fetched (sample_size params)
              else js_slice fetched ((page params - 1) * per_page params)
                     ((page params - 1) * per_page params + per_page params))
       in (include_details params \<longrightarrow> get_prop output ''records'' = JArr (map JObj selected))
        \<and> (\<not> include_details params \<and> concise params \<longrightarrow>
             get_prop output ''records''
               = JArr (map JObj (map (\<lambda>r. formatRecord r True) selected)))
        \<and> (\<not> include_details params \<and> \<not> concise params \<longrightarrow>
             get_prop output ''records'' = JArr (map JObj selected))))
   \<and> (let output = fst (get_record_respond gparams r) in
        (include_details gparams \<longrightarrow> get_prop output ''record'' = JObj r)
      \<and> (\<not> include_details gparams \<and> concise gparams \<longrightarrow>
           get_prop output ''record'' = JObj (formatRecord r True))
      \<and> (\<not> include_details gparams \<and> \<not> concise gparams \<longrightarrow>
           get_prop output ''record'' = JObj r))
   \<and> formatRecord r False = r
   \<and> (\<forall>client. getClient ps = Inr client \<longrightarrow>
        (collect_records params (list (list_query params)) [] = Inr fetched \<longrightarrow>
           cf_dns_list_records random ps list params
             = ok_response (snd (list_records_respond random params fetched)))
      \<and> (get (GetRecordInput.record_id gparams) (ReadFlags.zone_id gparams) = Inr r \<longrightarrow>
           cf_dns_get_record ps get gparams = ok_response (snd (get_record_respond gparams r))))"
proof -
  have list_part: "\<not> summary_only params \<longrightarrow>
      (let output = fst (list_records_respond random params fetched);
           selected =
             (if random_sample params then sample_of random fetched (sample_size params)
              else js_slice fetched ((page params - 1) * per_page params)
                     ((page params - 1) * per_page params + per_page params))
       in (include_details params \<longrightarrow> get_prop output ''records'' = JArr (map JObj selected))
        \<and> (\<not> include_details params \<and> concise params \<longrightarrow>
             get_prop output ''records''
               = JArr (map JObj (map (\<lambda>r. formatRecord r True) selected)))
        \<and> (\<not> include_details params \<and> \<not> concise params \<longrightarrow>
             get_prop output ''records'' = JArr (map JObj selected)))"
  proof (intro impI)
    assume ns: "\<not> summary_only params"
    show "let output = fst (list_records_respond random params fetched);
           selected =
             (if random_sample params then sample_of random fetched (sample_size params)
              else js_slice fetched ((page params - 1) * per_page params)
                     ((page params - 1) * per_page params + per_page params))
       in (include_details params \<longrightarrow> get_prop output ''records'' = JArr (map JObj selected))
        \<and> (\<not> include_details params \<and> concise params \<longrightarrow>
             get_prop output ''records''
               = JArr (map JObj (map (\<lambda>r. formatRecord r True) selected)))
        \<and> (\<not> include_details params \<and> \<not> concise params \<longrightarrow>
             get_prop output ''records'' = JArr (map JObj selected))"
    proof (cases "random_sample params")
      case True
      show ?thesis
        unfolding respond_sample[OF ns True] Let_def fst_conv get_prop_records_sample
          formatRecords_flag
        using True by simp
    next
      case False
      show ?thesis
        unfolding respond_paginated[OF ns False] Let_def fst_conv get_prop_records_paginated
          formatRecords_flag
        using False by simp
    qed
  qed
  have get_part: "let output = fst (get_record_respond gparams r) in
        (include_details gparams \<longrightarrow> get_prop output ''record'' = JObj r)
      \<and> (\<not> include_details gparams \<and> concise gparams \<longrightarrow>
           get_prop output ''record'' = JObj (formatRecord r True))
      \<and> (\<not> include_details gparams \<and> \<not> concise gparams \<longrightarrow>
           get_prop output ''record'' = JObj r)"
  proof -
    have "formatRecord r (if include_details gparams then False else concise gparams)
        = (if \<not> include_details gparams \<and> concise gparams then formatRecord r True else r)"
      by (simp add: formatRecord_def)
    then show ?thesis by (simp add: get_record_respond_def Let_def get_prop_def)
  qed
  have full: "formatRecord r False = r" by (simp add: formatRecord_def)
  have handlers: "\<forall>client. getClient ps = Inr client \<longrightarrow>
        (collect_records params (list (list_query params)) [] = Inr fetched \<longrightarrow>
           cf_dns_list_records random ps list params
             = ok_response (snd (list_records_respond random params fetched)))
      \<and> (get (GetRecordInput.record_id gparams) (ReadFlags.zone_id gparams) = Inr r \<longrightarrow>
           cf_dns_get_record ps get gparams = ok_response (snd (get_record_respond gparams r)))"
    by (simp add: list_records_handler get_record_handler)
  show ?thesis
    using list_part get_part full handlers by (intro conjI)
qed


text \<open>
  With \<^verbatim>\<open>include_details\<close> and \<^verbatim>\<open>concise\<close> both true the first page and a looked-up record
  are returned as the Directory gave them; with \<^verbatim>\<open>include_details\<close> false the looked-up
  record is projected.
\<close>

theorem include_details_overrides_concise_witness:
  "get_prop (fst (list_records_respond zero_draws (example_list_params False False True 1)
       example_records)) ''records'' = JArr (map JObj (take 2 example_records))
   \<and> get_prop (fst (get_record_respond (example_get_params True True) long_record)) ''record''
       = JObj long_record
   \<and> get_prop (fst (get_record_respond (example_get_params True False) long_record)) ''record''
       = JObj (formatRecord long_record True)"
proof -
  have h: "\<not> summary_only (example_list_params False False True 1)"
    "\<not> random_sample (example_list_params False False True 1)"
    "include_details (example_list_params False False True 1)"
    "page (example_list_params False False True 1) = 1"
    "per_page (example_list_params False False True 1) = 2"
    by (simp_all add: example_list_params_def)
  have g: "include_details (example_get_params True True)"
    "\<not> include_details (example_get_params True False)" "concise (example_get_params True False)"
    by (simp_all add: example_get_params_def)
  have sl: "js_slice example_records 0 (0 + 2) = take 2 example_records"
    using js_slice_page[of 0 2 example_records] by simp
  note t1 = include_details_overrides_concise[of "example_list_params False False True 1"
      zero_draws example_records "example_get_params True True" long_record]
  note t2 = include_details_overrides_concise[of "example_list_params False False True 1"
      zero_draws example_records "example_get_params True False" long_record]
  have a: "get_prop (fst (list_records_respond zero_draws (example_list_params False False True 1)
       example_records)) ''records'' = JArr (map JObj (take 2 example_records))"
    using t1 sl by (simp add: Let_def h)
  have b: "get_prop (fst (get_record_respond (example_get_params True True) long_record)) ''record''
       = JObj long_record"
    using t1 by (simp add: Let_def g)
  have c: "get_prop (fst (get_record_respond (example_get_params True False) long_record)) ''record''
       = JObj (formatRecord long_record True)"
    using t2 by (simp add: Let_def g)
  show ?thesis using a b c by (intro conjI)
qed

lemma length_truncateIfNeeded:
  "length (truncateIfNeeded t) \<le> CHARACTER_LIMIT + length TRUNCATION_NOTICE"
proof (cases "length t \<le> CHARACTER_LIMIT")
  case True
  then show ?thesis by (simp add: truncateIfNeeded_short)
next
  case False
  then have long: "CHARACTER_LIMIT < length t" by simp
  have "lastIndexOf (take CHARACTER_LIMIT t) newline < int CHARACTER_LIMIT"
    using lastIndexOf_bounds[of "take CHARACTER_LIMIT t" newline] long by simp
  then show ?thesis
    using long by (auto simp: truncateIfNeeded_long Let_def)
qed

lemma truncateIfNeeded_changes:
  "CHARACTER_LIMIT + length TRUNCATION_NOTICE < length t \<Longrightarrow> truncateIfNeeded t \<noteq> t"
  using length_truncateIfNeeded[of t] by auto

lemma snd_list_records_respond:
  "\<not> summary_only params \<Longrightarrow>
   snd (list_records_respond random params fetched)
     = truncateIfNeeded (JSON_stringify (fst (list_records_respond random params fetched)))"
  "summary_only params \<Longrightarrow>
   snd (list_records_respond random params fetched)
     = JSON_stringify (fst (list_records_respond random params fetched))"
  by (cases "random_sample params";
      simp add: respond_sample respond_paginated respond_summary Let_def)+

lemma snd_get_record_respond:
  "snd (get_record_respond gparams r) = JSON_stringify (fst (get_record_respond gparams r))"
  by (simp add: get_record_respond_def Let_def)

text \<open>
  Claim C1, as the code has it. Once the client and the Directory's answer are there, a list
  request in sample or paginated mode returns the Size Guard's output for the serialised
  object, a text of at most 25,000 characters plus the notice. A list request in summary mode
  and a get request return the serialised object itself.
\<close>

theorem size_guard_placement:
  "\<forall>client. getClient ps = Inr client \<longrightarrow>
      (collect_records params (list (list_query params)) [] = Inr fetched \<longrightarrow>
          (\<not> summary_only params \<longrightarrow>
              content_text (cf_dns_list_records random ps list params)
                = truncateIfNeeded
                    (JSON_stringify (fst (list_records_respond random params fetched)))
            \<and> length (content_text (cf_dns_list_records random ps list params))
                \<le> CHARACTER_LIMIT + length TRUNCATION_NOTICE)
        \<and> (summary_only params \<longrightarrow>
              content_text (cf_dns_list_records random ps list params)
                = JSON_stringify (fst (list_records_respond random params fetched))))
    \<and> (get (GetRecordInput.record_id gparams) (ReadFlags.zone_id gparams) = Inr r \<longrightarrow>
          content_text (cf_dns_get_record ps get gparams)
            = JSON_stringify (fst (get_record_respond gparams r)))"
proof (intro allI impI conjI)
  fix client
  assume c: "getClient ps = Inr client"
  {
    assume f: "collect_records params (list (list_query params)) [] = Inr fetched"
    {
      assume ns: "\<not> summary_only params"
      show g: "content_text (cf_dns_list_records random ps list params)
                = truncateIfNeeded
                    (JSON_stringify (fst (list_records_respond random params fetched)))"
        using c f
        by (simp add: cf_dns_list_records_def ok_response_def snd_list_records_respond(1)[OF ns])
      show "length (content_text (cf_dns_list_records random ps list params))
                \<le> CHARACTER_LIMIT + length TRUNCATION_NOTICE"
        unfolding g by (rule length_truncateIfNeeded)
    }
    {
      assume s: "summary_only params"
      show "content_text (cf_dns_list_records random ps list params)
                = JSON_stringify (fst (list_records_respond random params fetched))"
        using c f
        by (simp add: cf_dns_list_records_def ok_response_def snd_list_records_respond(2)[OF s])
    }
  }
  {
    assume g: "get (GetRecordInput.record_id gparams) (ReadFlags.zone_id gparams) = Inr r"
    show "content_text (cf_dns_get_record ps get gparams)
            = JSON_stringify (fst (get_record_respond gparams r))"
      using c g
      by (simp add: cf_dns_get_record_def ok_response_def snd_get_record_respond)
  }
qed


text \<open>
  The example listing in paginated and in summary mode, and the lookup of the long record.
\<close>

theorem size_guard_placement_witness:
  "content_text (cf_dns_list_records zero_draws example_process example_listing
       (example_list_params False False False 1))
     = truncateIfNeeded (JSON_stringify (fst (list_records_respond zero_draws
         (example_list_params False False False 1) example_records)))
   \<and> content_text (cf_dns_list_records zero_draws example_process example_listing
       (example_list_params True False False 1))
     = JSON_stringify (fst (list_records_respond zero_draws
         (example_list_params True False False 1) example_records))
   \<and> content_text (cf_dns_get_record example_process long_get (example_get_params True False))
     = JSON_stringify (fst (get_record_respond (example_get_params True False) long_record))"
proof -
  have h: "\<not> summary_only (example_list_params False False False 1)"
    "summary_only (example_list_params True False False 1)"
    by (simp_all add: example_list_params_def)
  have g: "long_get (GetRecordInput.record_id (example_get_params True False))
             (ReadFlags.zone_id (example_get_params True False)) = Inr long_record"
    by (simp add: long_get_def)
  note t1 = size_guard_placement[where ps = example_process and list = example_listing
      and params = "example_list_params False False False 1" and fetched = example_records
      and random = zero_draws and get = long_get and gparams = "example_get_params True False"
      and r = long_record]
  note t2 = size_guard_placement[where ps = example_process and list = example_listing
      and params = "example_list_params True False False 1" and fetched = example_records
      and random = zero_draws and get = long_get and gparams = "example_get_params True False"
      and r = long_record]
  show ?thesis
    using t1 t2 example_client example_fetch[of False False False 1]
      example_fetch[of True False False 1] g h
    by simp
qed

lemma concat_quote_replicate_x:
  "concat (replicate n (quote_char CHR ''x'')) = replicate n CHR ''x''"
  by (induction n) (simp_all add: quote_char_def dquote_def backslash_def)

lemma long_record_concise:
  "formatRecord long_record True =
     [(''id'', JStr ''r9''), (''type'', JStr ''TXT''), (''name'', JStr ''example.com''),
      (''content'', JStr (replicate 26000 CHR ''x'')), (''ttl'', JNum 300)]"
  by (simp add: long_record_def formatRecord_def get_prop_def set_prop_def nullish_def)

lemma long_record_text_length:
  "CHARACTER_LIMIT + length TRUNCATION_NOTICE
     < length (JSON_stringify (fst (get_record_respond (example_get_params True False) long_record)))"
proof -
  have "fst (get_record_respond (example_get_params True False) long_record)
      = [(''record'', JObj (formatRecord long_record True))]"
    by (simp add: get_record_respond_def example_get_params_def Let_def)
  then show ?thesis
    unfolding long_record_concise
    by (simp add: JSON_stringify_def QuoteJSONString_def concat_quote_replicate_x
        quote_char_def dquote_def backslash_def CHARACTER_LIMIT_def TRUNCATION_NOTICE_def)
qed

text \<open>
  Claim C1, as stated, fails: the answer to a get request for a record with 26,000
  characters of content is the serialised object, longer than any output of the Size Guard,
  and differs from the Size Guard's output for it.
\<close>

theorem get_record_not_size_guarded:
  "content_text (cf_dns_get_record example_process long_get (example_get_params True False))
     = JSON_stringify (fst (get_record_respond (example_get_params True False) long_record))
   \<and> CHARACTER_LIMIT + length TRUNCATION_NOTICE
       < length (content_text (cf_dns_get_record example_process long_get
           (example_get_params True False)))
   \<and> content_text (cf_dns_get_record example_process long_get (example_get_params True False))
     \<noteq> truncateIfNeeded
         (JSON_stringify (fst (get_record_respond (example_get_params True False) long_record)))"
proof -
  have t: "content_text (cf_dns_get_record example_process long_get (example_get_params True False))
     = JSON_stringify (fst (get_record_respond (example_get_params True False) long_record))"
    using example_client
    by (simp add: cf_dns_get_record_def long_get_def ok_response_def snd_get_record_respond)
  show ?thesis
    unfolding t
    using long_record_text_length truncateIfNeeded_changes[OF long_record_text_length]
    by simp
qed

end
